theory Spec2Isabelle
  imports Complex_Main
begin

section \<open>Quality settings: \<^verbatim>\<open>src/local_app/main.py\<close>\<close>

text \<open>
  \<^verbatim>\<open>StreamProcessor\<close> of \<^verbatim>\<open>src/local_app/main.py\<close> keeps two dictionaries keyed by
  stream id. The values of \<^verbatim>\<open>streams\<close> are the small descriptor dictionaries
  \<^verbatim>\<open>{"name": ...}\<close>, modelled by the name they hold. The field names carry the suffix
  \<^verbatim>\<open>_sp\<close> because the two other processor classes of the repository have fields of the
  same names.
\<close>

record stream_processor =
  streams_sp :: "string \<rightharpoonup> string"
  stream_qualities_sp :: "string \<rightharpoonup> int"

text \<open>
  \<^verbatim>\<open>StreamProcessor.set_stream_quality\<close> (lines 29 to 38). The mutation of
  \<^verbatim>\<open>self.stream_qualities\<close> is returned as the new processor; the log line has no
  effect on the state.
\<close>

definition set_stream_quality :: "stream_processor \<Rightarrow> string \<Rightarrow> int \<Rightarrow> bool \<times> stream_processor" where
  "set_stream_quality self stream_id quality =
     (if stream_id \<notin> dom (streams_sp self) then (False, self)
      else
        let quality = max 1 (min 100 quality)
        in (True, self\<lparr>stream_qualities_sp := (stream_qualities_sp self)(stream_id \<mapsto> quality)\<rparr>))"

text \<open>The module's own start state: the dummy stream added at import time (line 64).\<close>

definition initial_stream_processor :: stream_processor where
  "initial_stream_processor =
     \<lparr>streams_sp = [''test_stream'' \<mapsto> ''Test Stream''], stream_qualities_sp = Map.empty\<rparr>"

text \<open>Every stored quality is a legal JPEG quality.\<close>

definition qualities_in_range :: "stream_processor \<Rightarrow> bool" where
  "qualities_in_range self =
     (\<forall>k v. stream_qualities_sp self k = Some v \<longrightarrow> 1 \<le> v \<and> v \<le> 100)"

section \<open>Python and OpenCV objects\<close>

text \<open>
  Exceptions are values. Only the exception classes that the modelled code can meet are
  listed; every \<^verbatim>\<open>try\<close>/\<^verbatim>\<open>except\<close> of the source is a case distinction on a sum
  whose left injection carries the exception.
\<close>

datatype exn =
  KeyError | ZeroDivisionError | Cv2Error | QueueFull | QueueEmpty
  | WebSocketDisconnect | RuntimeError

type_synonym bytes = "nat list"

text \<open>
  A decoded frame is a NumPy array: \<^verbatim>\<open>frame.shape[0]\<close> is its height (\<open>rows\<close>),
  \<^verbatim>\<open>frame.shape[1]\<close> its width (\<open>cols\<close>).
\<close>

record frame =
  rows :: nat
  cols :: nat
  pixels :: "nat list"

text \<open>
  A \<^verbatim>\<open>cv2.VideoCapture\<close>. What the camera will deliver is the list \<open>pending\<close> of the
  results of the coming \<^verbatim>\<open>read()\<close> calls, each the pair \<^verbatim>\<open>(ret, frame)\<close> that OpenCV
  returns. A capture that is not open, or has nothing more to deliver, reads
  \<^verbatim>\<open>(False, None)\<close>.
\<close>

record capture =
  opened :: bool
  pending :: "(bool \<times> frame option) list"
  prop_frame_width :: nat
  prop_frame_height :: nat

definition isOpened :: "capture \<Rightarrow> bool" where
  "isOpened cap = opened cap"

definition release :: "capture \<Rightarrow> capture" where
  "release cap = cap\<lparr>opened := False\<rparr>"

definition read_cap :: "capture \<Rightarrow> (bool \<times> frame option) \<times> capture" where
  "read_cap cap =
     (if \<not> opened cap then ((False, None), cap)
      else case pending cap of
             [] \<Rightarrow> ((False, None), cap)
           | r # rs \<Rightarrow> (r, cap\<lparr>pending := rs\<rparr>))"

text \<open>
  \<^verbatim>\<open>queue.Queue(maxsize)\<close> of the standard library, holding encoded frames, oldest
  first. \<^verbatim>\<open>full()\<close> is \<^verbatim>\<open>0 < maxsize <= qsize()\<close>; \<^verbatim>\<open>put_nowait\<close> raises
  \<^verbatim>\<open>queue.Full\<close> rather than wait, \<^verbatim>\<open>get_nowait\<close> raises \<^verbatim>\<open>queue.Empty\<close>.
  \<^verbatim>\<open>get(timeout=t)\<close> waits up to \<^verbatim>\<open>t\<close> seconds for a producer; what it returns when no
  producer came within the timeout is what \<open>get_timeout\<close> gives: the oldest item, or
  \<^verbatim>\<open>queue.Empty\<close>.
\<close>

record queue =
  maxsize :: nat
  items :: "bytes list"

definition Queue :: "nat \<Rightarrow> queue" where
  "Queue n = \<lparr>maxsize = n, items = []\<rparr>"

definition full :: "queue \<Rightarrow> bool" where
  "full q = (0 < maxsize q \<and> maxsize q \<le> length (items q))"

definition get_nowait :: "queue \<Rightarrow> exn + (bytes \<times> queue)" where
  "get_nowait q =
     (case items q of
        [] \<Rightarrow> Inl QueueEmpty
      | b # bs \<Rightarrow> Inr (b, q\<lparr>items := bs\<rparr>))"

definition get_timeout :: "queue \<Rightarrow> exn + (bytes \<times> queue)" where
  "get_timeout q = get_nowait q"

definition put_nowait :: "queue \<Rightarrow> bytes \<Rightarrow> exn + queue" where
  "put_nowait q b = (if full q then Inl QueueFull else Inr (q\<lparr>items := items q @ [b]\<rparr>))"

text \<open>
  NumPy arrays are mutable objects with identity. The arrays that outlive one function
  call (the cached latest frame, and the copies handed to callers) live in a store: a list
  of arrays, an array's address being its index. \<open>alloc\<close> is the creation of a new array;
  \<^verbatim>\<open>ndarray.copy()\<close> allocates a new array with the content of the old one. A caller that
  writes into an array it holds performs \<open>ndarray_write\<close>. Addresses come from \<open>alloc\<close>
  only, so a stored address is always below the length of the store
  (\<open>cache_in_store\<close> below).
\<close>

type_synonym store = "frame list"

definition alloc :: "store \<Rightarrow> frame \<Rightarrow> nat \<times> store" where
  "alloc st f = (length st, st @ [f])"

definition ndarray_copy :: "store \<Rightarrow> nat \<Rightarrow> nat \<times> store" where
  "ndarray_copy st a = alloc st (st ! a)"

definition ndarray_write :: "store \<Rightarrow> nat \<Rightarrow> frame \<Rightarrow> store" where
  "ndarray_write st a f = st[a := f]"

text \<open>
  Python's \<^verbatim>\<open>float\<close> is IEEE 754 binary64. A positive float is kept as the pair
  \<open>(m, k)\<close> of integers that stands for \<open>m * 2 ^ k\<close>; the floats that the resize step
  computes are positive or zero.
  \<^item> \<open>bit_length\<close> is \<^verbatim>\<open>int.bit_length()\<close>.
  \<^item> \<open>round_half_even a b\<close> is the integer nearest to \<open>a / b\<close>, a tie going to the even
    one: the rounding of binary64.
  \<^item> \<open>binary64_div p q\<close> is \<^verbatim>\<open>p / q\<close> for Python integers \<open>p \<ge> 0\<close>, \<open>q > 0\<close>: the
    float nearest to the quotient. With \<open>e\<close> the binary exponent of the quotient
    (\<open>2 ^ e \<le> p / q < 2 ^ (e + 1)\<close>), the quotient is rounded to a multiple of
    \<open>2 ^ (e - 52)\<close>, which leaves 53 significant bits.
  \<^item> \<open>binary64_times n x\<close> is \<^verbatim>\<open>n * x\<close> for a Python integer \<open>n \<ge> 0\<close> and a float
    \<open>x\<close>: the float nearest to the product.
  \<^item> \<open>int_of_binary64 x\<close> is \<^verbatim>\<open>int(x)\<close>, which truncates.
  The definitions are exact as long as the integers are below \<open>2 ^ 53\<close> and the
  results in the normal range of binary64; the dimensions of an OpenCV frame are below
  \<open>2 ^ 31\<close>. The rounding matters: \<^verbatim>\<open>int(537 * (1280 / 1432))\<close> is 479 in Python, while
  \<open>537 * 1280 / 1432\<close> is exactly 480.
\<close>

fun bit_length :: "nat \<Rightarrow> nat" where
  "bit_length n = (if n = 0 then 0 else Suc (bit_length (n div 2)))"

declare bit_length.simps [simp del]

definition round_half_even :: "int \<Rightarrow> int \<Rightarrow> int" where
  "round_half_even a b =
     (let m = a div b; r = a mod b
      in if 2 * r > b \<or> (2 * r = b \<and> odd m) then m + 1 else m)"

definition binary64_div :: "int \<Rightarrow> int \<Rightarrow> int \<times> int" where
  "binary64_div p q =
     (let d = int (bit_length (nat p)) - int (bit_length (nat q));
          e = (if p * 2 ^ nat (- d) < q * 2 ^ nat d then d - 1 else d);
          k = e - 52
      in (round_half_even (p * 2 ^ nat (- k)) (q * 2 ^ nat k), k))"

definition binary64_times :: "int \<Rightarrow> int \<times> int \<Rightarrow> int \<times> int" where
  "binary64_times n x = binary64_div (n * fst x * 2 ^ nat (snd x)) (2 ^ nat (- snd x))"

definition int_of_binary64 :: "int \<times> int \<Rightarrow> int" where
  "int_of_binary64 x = fst x * 2 ^ nat (snd x) div 2 ^ nat (- snd x)"

text \<open>
  What the code takes from outside: OpenCV and the URL parser. These are parameters of the
  model.
  \<^item> \<open>VideoCapture url\<close> is the capture object that \<^verbatim>\<open>cv2.VideoCapture(url, ...)\<close>
    constructs; whether the camera answered shows in \<open>opened\<close>. The constructor itself is
    taken not to raise.
  \<^item> \<open>resize_pixels f w h\<close> is the pixel content of \<^verbatim>\<open>cv2.resize(f, (w, h))\<close>.
  \<^item> \<open>imencode f q\<close> is \<^verbatim>\<open>cv2.imencode('.jpg', f, [cv2.IMWRITE_JPEG_QUALITY, q])\<close>
    followed by \<^verbatim>\<open>buffer.tobytes()\<close>, or the exception it raises.
  \<^item> \<open>urlparse_hostname url\<close> is \<^verbatim>\<open>urllib.parse.urlparse(url).hostname\<close>, or the text of
    the exception it raises.
\<close>

record env =
  VideoCapture :: "string \<Rightarrow> capture"
  resize_pixels :: "frame \<Rightarrow> nat \<Rightarrow> nat \<Rightarrow> nat list"
  imencode :: "frame \<Rightarrow> int \<Rightarrow> exn + bytes"
  urlparse_hostname :: "string \<Rightarrow> string + string option"

text \<open>
  \<^verbatim>\<open>cv2.resize(frame, (new_width, new_height))\<close>: the result has \<^verbatim>\<open>new_height\<close> rows and
  \<^verbatim>\<open>new_width\<close> columns; OpenCV raises \<^verbatim>\<open>cv2.error\<close> for an empty source or an empty
  target size.
\<close>

definition cv2_resize :: "env \<Rightarrow> frame \<Rightarrow> int \<times> int \<Rightarrow> exn + frame" where
  "cv2_resize env f dsize =
     (case dsize of (new_width, new_height) \<Rightarrow>
        if rows f = 0 \<or> cols f = 0 \<or> new_width \<le> 0 \<or> new_height \<le> 0 then Inl Cv2Error
        else Inr \<lparr>rows = nat new_height, cols = nat new_width,
                  pixels = resize_pixels env f (nat new_width) (nat new_height)\<rparr>)"

datatype lock = Lock

text \<open>
  A \<^verbatim>\<open>threading.Thread\<close> handle, by its arguments: \<^verbatim>\<open>args=(stream_id,)\<close> in
  \<^verbatim>\<open>simple_service.py\<close>, \<^verbatim>\<open>args=(stream_id, enable_ai)\<close> in \<^verbatim>\<open>enhanced_main.py\<close>. The
  thread's work is the worker iteration below, scheduled from outside.
\<close>

datatype thread = Thread string | ThreadAI string bool

text \<open>HTTP outcomes of an endpoint: the returned body, a raised \<^verbatim>\<open>HTTPException\<close>
  with status code and detail, or an exception the endpoint does not handle.\<close>

datatype 'a response = Ok 'a | HTTPException nat string | Unhandled exn

section \<open>The registry and worker of \<^verbatim>\<open>src/local_app/simple_service.py\<close>\<close>

text \<open>
  \<^verbatim>\<open>OptimizedStreamProcessor\<close>: one dictionary per kind of per-stream state, keyed by
  stream id. \<open>latest_frames\<close> holds the address of the cached array in the store;
  \<open>active_connections\<close> holds the identities of the registered \<^verbatim>\<open>WebSocket\<close> objects.
  Clock readings (\<^verbatim>\<open>time.time()\<close>) are real numbers, in seconds.
\<close>

record optimized =
  streams :: "string \<rightharpoonup> capture"
  stream_urls :: "string \<rightharpoonup> string"
  latest_frames :: "string \<rightharpoonup> nat"
  frame_locks :: "string \<rightharpoonup> lock"
  processing_threads :: "string \<rightharpoonup> thread"
  running :: bool
  jpeg_quality :: int
  max_fps :: nat
  frame_queues :: "string \<rightharpoonup> queue"
  active_connections :: "string \<rightharpoonup> nat set"
  fps_counters :: "string \<rightharpoonup> nat"
  last_fps_time :: "string \<rightharpoonup> real"
  consecutive_failures :: "string \<rightharpoonup> nat"
  max_consecutive_failures :: nat

text \<open>\<^verbatim>\<open>OptimizedStreamProcessor.__init__\<close> (lines 41 to 65).\<close>

definition optimized_init :: optimized where
  "optimized_init =
     \<lparr>streams = Map.empty, stream_urls = Map.empty, latest_frames = Map.empty,
      frame_locks = Map.empty, processing_threads = Map.empty, running = True,
      jpeg_quality = 40, max_fps = 30, frame_queues = Map.empty,
      active_connections = Map.empty, fps_counters = Map.empty,
      last_fps_time = Map.empty, consecutive_failures = Map.empty,
      max_consecutive_failures = 30\<rparr>"

text \<open>
  \<^verbatim>\<open>OptimizedStreamProcessor.add_stream\<close> (lines 67 to 132), called at clock reading
  \<open>now\<close>. The URL, the lock, the queue of capacity 2 and the empty connection set are
  stored before the capture is constructed. The \<^verbatim>\<open>cap.set\<close> calls configure OpenCV and
  change nothing that is modelled. Starting the worker thread is recorded by its handle.
\<close>

definition add_stream :: "env \<Rightarrow> real \<Rightarrow> optimized \<Rightarrow> string \<Rightarrow> string \<Rightarrow> bool \<times> optimized" where
  "add_stream env now self stream_id rtsp_url =
     (if stream_id \<in> dom (streams self) then (True, self)
      else
        let self1 = self
              \<lparr>stream_urls := (stream_urls self)(stream_id \<mapsto> rtsp_url),
               frame_locks := (frame_locks self)(stream_id \<mapsto> Lock),
               frame_queues := (frame_queues self)(stream_id \<mapsto> Queue 2),
               active_connections := (active_connections self)(stream_id \<mapsto> {})\<rparr>;
            cap = VideoCapture env rtsp_url
        in if \<not> isOpened cap then (False, self1)
           else (True, self1
              \<lparr>streams := (streams self1)(stream_id \<mapsto> cap),
               fps_counters := (fps_counters self1)(stream_id \<mapsto> 0),
               last_fps_time := (last_fps_time self1)(stream_id \<mapsto> now),
               consecutive_failures := (consecutive_failures self1)(stream_id \<mapsto> 0),
               processing_threads := (processing_threads self1)(stream_id \<mapsto> Thread stream_id)\<rparr>))"

text \<open>
  \<^verbatim>\<open>OptimizedStreamProcessor.remove_stream\<close> (lines 134 to 167). Each
  \<^verbatim>\<open>if stream_id in d: del d[stream_id]\<close> removes the key if it is there. Two effects
  leave the processor: the capture that was released, and the connections for which a
  \<^verbatim>\<open>connection.close()\<close> task was scheduled with \<^verbatim>\<open>asyncio.create_task\<close>; both are
  returned beside the new processor. The method is called from the endpoint's coroutine,
  so an event loop is running and scheduling does not raise.
\<close>

record removal =
  released :: "capture option"
  close_tasks :: "nat set"

definition remove_stream :: "optimized \<Rightarrow> string \<Rightarrow> bool \<times> optimized \<times> removal" where
  "remove_stream self stream_id =
     (True,
      self\<lparr>streams := (streams self)(stream_id := None),
           latest_frames := (latest_frames self)(stream_id := None),
           frame_locks := (frame_locks self)(stream_id := None),
           processing_threads := (processing_threads self)(stream_id := None),
           stream_urls := (stream_urls self)(stream_id := None),
           frame_queues := (frame_queues self)(stream_id := None),
           active_connections := (active_connections self)(stream_id := None)\<rparr>,
      \<lparr>released = map_option release (streams self stream_id),
       close_tasks = (case active_connections self stream_id of None \<Rightarrow> {} | Some conns \<Rightarrow> conns)\<rparr>)"

text \<open>
  \<^verbatim>\<open>OptimizedStreamProcessor._reconnect_stream\<close> (lines 169 to 206). The old capture is
  released and its entry deleted before the new capture is constructed; the entry comes
  back only if the new capture is open. There is no trial read.
\<close>

definition reconnect_stream :: "env \<Rightarrow> optimized \<Rightarrow> string \<Rightarrow> bool \<times> optimized" where
  "reconnect_stream env self stream_id =
     (case stream_urls self stream_id of
        None \<Rightarrow> (False, self)
      | Some rtsp_url \<Rightarrow>
          let self1 = self\<lparr>streams := (streams self)(stream_id := None)\<rparr>;
              cap = VideoCapture env rtsp_url
          in if \<not> isOpened cap then (False, self1)
             else (True, self1
                \<lparr>streams := (streams self1)(stream_id \<mapsto> cap),
                 consecutive_failures := (consecutive_failures self1)(stream_id \<mapsto> 0)\<rparr>))"

text \<open>
  The resize step of the worker (lines 277 to 282): only the width is compared with 1280;
  the new width is 1280 and the new height \<^verbatim>\<open>int(frame.shape[0] * scale)\<close> with
  \<^verbatim>\<open>scale = 1280 / frame.shape[1]\<close>.
\<close>

definition resize_for_queue :: "env \<Rightarrow> frame \<Rightarrow> exn + frame" where
  "resize_for_queue env fr =
     (if cols fr > 1280 then
        let scale = binary64_div 1280 (int (cols fr));
            new_width = 1280;
            new_height = int_of_binary64 (binary64_times (int (rows fr)) scale)
        in cv2_resize env fr (new_width, new_height)
      else Inr fr)"

text \<open>
  The queueing step of the worker (lines 269 to 292) for the frame just read. A missing
  queue is a \<^verbatim>\<open>KeyError\<close>, an error of \<^verbatim>\<open>cv2.resize\<close> or \<^verbatim>\<open>cv2.imencode\<close> a
  \<^verbatim>\<open>cv2.error\<close>; both are caught by \<^verbatim>\<open>except Exception\<close> and the frame is skipped, after
  the oldest entry of a full queue has already been taken out. \<^verbatim>\<open>queue.Full\<close> is caught
  and ignored.
\<close>

definition enqueue_frame :: "env \<Rightarrow> optimized \<Rightarrow> string \<Rightarrow> frame \<Rightarrow> optimized" where
  "enqueue_frame env self stream_id fr =
     (case frame_queues self stream_id of
        None \<Rightarrow> self
      | Some q \<Rightarrow>
          (let q1 = (if full q
                     then (case get_nowait q of Inl _ \<Rightarrow> q | Inr (_, q') \<Rightarrow> q')
                     else q);
               self1 = self\<lparr>frame_queues := (frame_queues self)(stream_id \<mapsto> q1)\<rparr>
           in (case resize_for_queue env fr of
                 Inl _ \<Rightarrow> self1
               | Inr fr' \<Rightarrow>
                   (case imencode env fr' (jpeg_quality self1) of
                      Inl _ \<Rightarrow> self1
                    | Inr buffer \<Rightarrow>
                        (case put_nowait q1 buffer of
                           Inl _ \<Rightarrow> self1
                         | Inr q2 \<Rightarrow>
                             self1\<lparr>frame_queues := (frame_queues self1)(stream_id \<mapsto> q2)\<rparr>)))))"

text \<open>
  The local variables of \<^verbatim>\<open>_process_stream\<close> that live across iterations (lines 210 to
  213).
\<close>

record worker =
  frame_count :: nat
  last_successful_frame_time :: real
  reconnect_cooldown :: real
  last_frame_time :: real

definition worker_init :: "real \<Rightarrow> worker" where
  "worker_init now =
     \<lparr>frame_count = 0, last_successful_frame_time = now, reconnect_cooldown = 0,
      last_frame_time = now\<rparr>"

text \<open>
  The reconnection attempt behind a cooldown, as it stands three times in the loop:
  \<^verbatim>\<open>if time.time() - reconnect_cooldown > limit: if not self._reconnect_stream(...):
  reconnect_cooldown = time.time() else: last_successful_frame_time = time.time()\<close>. The
  first occurrence (capture not open, lines 224 to 226) has no \<^verbatim>\<open>else\<close> branch:
  \<open>note_success\<close> is false there.
\<close>

definition try_reconnect ::
    "env \<Rightarrow> real \<Rightarrow> real \<Rightarrow> bool \<Rightarrow> optimized \<Rightarrow> string \<Rightarrow> worker \<Rightarrow> optimized \<times> worker" where
  "try_reconnect env now limit note_success self stream_id w =
     (if now - reconnect_cooldown w > limit then
        (case reconnect_stream env self stream_id of
           (False, self') \<Rightarrow> (self', w\<lparr>reconnect_cooldown := now\<rparr>)
         | (True, self') \<Rightarrow>
             (self', if note_success then w\<lparr>last_successful_frame_time := now\<rparr> else w))
      else (self, w))"

text \<open>What one pass through the loop body did.\<close>

datatype outcome =
  Exited | NotOpened | Stale | RateLimited | Raised exn | ReadFailed
  | FrameRead frame "exn option"

text \<open>
  The end of an iteration that read a frame (lines 294 to 300): the FPS counter. A missing
  \<^verbatim>\<open>last_fps_time\<close> entry is a \<^verbatim>\<open>KeyError\<close>, caught by the outer handler.
\<close>

definition update_fps :: "real \<Rightarrow> optimized \<Rightarrow> string \<Rightarrow> worker \<Rightarrow> exn + (optimized \<times> worker)" where
  "update_fps now self stream_id w =
     (let w1 = w\<lparr>frame_count := frame_count w + 1\<rparr>
      in case last_fps_time self stream_id of
           None \<Rightarrow> Inl KeyError
         | Some t \<Rightarrow>
             if now - t \<ge> 1 then
               Inr (self\<lparr>fps_counters := (fps_counters self)(stream_id \<mapsto> frame_count w1),
                         last_fps_time := (last_fps_time self)(stream_id \<mapsto> now)\<rparr>,
                    w1\<lparr>frame_count := 0\<rparr>)
             else Inr (self, w1))"

text \<open>
  A failed read (lines 247 to 258): the failure counter goes up by one, and at
  \<^verbatim>\<open>max_consecutive_failures\<close> a reconnection is tried behind a cooldown of 10 seconds.
\<close>

definition on_read_failure ::
    "env \<Rightarrow> real \<Rightarrow> optimized \<Rightarrow> string \<Rightarrow> worker \<Rightarrow> optimized \<times> worker" where
  "on_read_failure env now self stream_id w =
     (let n = (case consecutive_failures self stream_id of None \<Rightarrow> 0 | Some k \<Rightarrow> k) + 1;
          self1 = self\<lparr>consecutive_failures := (consecutive_failures self)(stream_id \<mapsto> n)\<rparr>
      in if n \<ge> max_consecutive_failures self1
         then try_reconnect env now 10 True self1 stream_id w
         else (self1, w))"

text \<open>
  A successful read of the frame \<open>fr\<close> (lines 260 to 300). The frame that \<^verbatim>\<open>cap.read()\<close>
  returned is local to the iteration; \<^verbatim>\<open>frame.copy()\<close> puts a new array into the store,
  and its address into \<open>latest_frames\<close>. A missing lock is a \<^verbatim>\<open>KeyError\<close> that ends the
  iteration in the outer handler, after the failure counter was reset. The first
  component of the result is the exception that ended the iteration early, if any.
\<close>

definition on_frame ::
    "env \<Rightarrow> real \<Rightarrow> store \<Rightarrow> optimized \<Rightarrow> string \<Rightarrow> worker \<Rightarrow> frame
      \<Rightarrow> exn option \<times> store \<times> optimized \<times> worker" where
  "on_frame env now st self stream_id w fr =
     (let self1 = self\<lparr>consecutive_failures := (consecutive_failures self)(stream_id \<mapsto> 0)\<rparr>;
          w1 = w\<lparr>last_successful_frame_time := now\<rparr>
      in (case frame_locks self1 stream_id of
            None \<Rightarrow> (Some KeyError, st, self1, w1)
          | Some _ \<Rightarrow>
              (case alloc st fr of
                 (a, st') \<Rightarrow>
                   (let self2 = self1\<lparr>latest_frames := (latest_frames self1)(stream_id \<mapsto> a)\<rparr>;
                        self3 = enqueue_frame env self2 stream_id fr
                    in (case update_fps now self3 stream_id w1 of
                          Inl e \<Rightarrow> (Some e, st', self3, w1\<lparr>frame_count := frame_count w1 + 1\<rparr>)
                        | Inr (self4, w2) \<Rightarrow> (None, st', self4, w2))))))"

text \<open>
  One iteration of the \<^verbatim>\<open>while\<close> loop of \<^verbatim>\<open>_process_stream\<close> (lines 215 to 304), at
  clock reading \<open>now\<close>; the sleeps are not modelled, and all \<^verbatim>\<open>time.time()\<close> calls of one
  iteration read \<open>now\<close>. A dictionary cannot hold \<^verbatim>\<open>None\<close> here, so the
  \<^verbatim>\<open>cap is None\<close> branch (lines 218 to 220) does not arise once the loop condition has
  held. The iteration runs without interference from other threads. \<^verbatim>\<open>cap.read()\<close>
  changes the capture object, which stays in \<open>streams\<close>. The read counts as failed when
  \<^verbatim>\<open>not ret or frame is None\<close>.
\<close>

definition process_stream_iter ::
    "env \<Rightarrow> real \<Rightarrow> store \<Rightarrow> optimized \<Rightarrow> string \<Rightarrow> worker
      \<Rightarrow> outcome \<times> store \<times> optimized \<times> worker" where
  "process_stream_iter env now st self stream_id w =
     (case (if running self then streams self stream_id else None) of
        None \<Rightarrow> (Exited, st, self, w)
      | Some cap \<Rightarrow>
          (if \<not> isOpened cap then
             (case try_reconnect env now 5 False self stream_id w of
                (self', w') \<Rightarrow> (NotOpened, st, self', w'))
           else if now - last_successful_frame_time w > 30 then
             (case try_reconnect env now 10 True self stream_id w of
                (self', w') \<Rightarrow> (Stale, st, self', w'))
           else if max_fps self = 0 then (Raised ZeroDivisionError, st, self, w)
           else if now - last_frame_time w < 1 / real (max_fps self) then
             (RateLimited, st, self, w)
           else
             (case read_cap cap of
                ((ret, frame), cap') \<Rightarrow>
                  (let w1 = w\<lparr>last_frame_time := now\<rparr>;
                       self1 = self\<lparr>streams := (streams self)(stream_id \<mapsto> cap')\<rparr>
                   in (case (if ret then frame else None) of
                         None \<Rightarrow>
                           (case on_read_failure env now self1 stream_id w1 of
                              (self', w') \<Rightarrow> (ReadFailed, st, self', w'))
                       | Some fr \<Rightarrow>
                           (case on_frame env now st self1 stream_id w1 fr of
                              (e, st', self', w') \<Rightarrow> (FrameRead fr e, st', self', w')))))))"

text \<open>
  \<^verbatim>\<open>OptimizedStreamProcessor.get_latest_frame\<close> (lines 306 to 312): the caller receives
  the address of a new array, a copy of the cached one, or \<^verbatim>\<open>None\<close>.
\<close>

definition get_latest_frame :: "store \<Rightarrow> optimized \<Rightarrow> string \<Rightarrow> nat option \<times> store" where
  "get_latest_frame st self stream_id =
     (if stream_id \<notin> dom (frame_locks self) then (None, st)
      else case latest_frames self stream_id of
             None \<Rightarrow> (None, st)
           | Some a \<Rightarrow> (case ndarray_copy st a of (c, st') \<Rightarrow> (Some c, st')))"

text \<open>The addresses in the frame cache point into the store.\<close>

definition cache_in_store :: "store \<Rightarrow> optimized \<Rightarrow> bool" where
  "cache_in_store st self = (\<forall>k a. latest_frames self k = Some a \<longrightarrow> a < length st)"

text \<open>
  A registered stream has its URL, and every id with a URL has its lock and its queue:
  \<^verbatim>\<open>add_stream\<close> stores URL, lock and queue before the capture, \<^verbatim>\<open>remove_stream\<close>
  deletes them together, and \<^verbatim>\<open>_reconnect_stream\<close> touches the capture only.
\<close>

definition registry_ok :: "optimized \<Rightarrow> bool" where
  "registry_ok self =
     (dom (streams self) \<subseteq> dom (stream_urls self)
      \<and> dom (stream_urls self) \<subseteq> dom (frame_locks self)
      \<and> dom (stream_urls self) \<subseteq> dom (frame_queues self))"

section \<open>The delivery endpoints of \<^verbatim>\<open>src/local_app/simple_service.py\<close>\<close>

text \<open>The JSON bodies \<^verbatim>\<open>{"success": ..., "message": ...}\<close>.\<close>

record reply =
  success :: bool
  message :: string

text \<open>The endpoint \<^verbatim>\<open>DELETE /remove_stream/{stream_id}\<close> (lines 398 to 405).\<close>

definition remove_stream_endpoint ::
    "optimized \<Rightarrow> string \<Rightarrow> reply response \<times> optimized \<times> removal" where
  "remove_stream_endpoint self stream_id =
     (case remove_stream self stream_id of
        (ok, self', eff) \<Rightarrow>
          (if ok then Ok \<lparr>success = True, message = ''Stream removed successfully''\<rparr>
           else HTTPException 404 ''Stream not found'',
           self', eff))"

text \<open>A \<^verbatim>\<open>StreamingResponse\<close> over a byte buffer.\<close>

record streaming_response =
  body :: bytes
  media_type :: string
  headers :: "(string \<times> string) list"

text \<open>
  The endpoint \<^verbatim>\<open>GET /stream/{stream_id}/frame\<close> (lines 423 to 440); \<open>quality\<close> is
  \<^verbatim>\<open>None\<close> when the request gives none. The frame that is encoded is the copy that
  \<open>get_latest_frame\<close> returned. The endpoint has no handler around \<^verbatim>\<open>cv2.imencode\<close>.
\<close>

definition get_stream_frame ::
    "env \<Rightarrow> store \<Rightarrow> optimized \<Rightarrow> string \<Rightarrow> int option \<Rightarrow> streaming_response response \<times> store" where
  "get_stream_frame env st self stream_id quality =
     (case get_latest_frame st self stream_id of
        (None, st') \<Rightarrow> (HTTPException 404 ''Stream not found or no frame available'', st')
      | (Some c, st') \<Rightarrow>
          (let q = (case quality of Some q' \<Rightarrow> q' | None \<Rightarrow> jpeg_quality self)
           in (case imencode env (st' ! c) q of
                 Inl e \<Rightarrow> (Unhandled e, st')
               | Inr buffer \<Rightarrow>
                   (Ok \<lparr>body = buffer, media_type = ''image/jpeg'',
                        headers = [(''Cache-Control'', ''no-cache'')]\<rparr>, st'))))"

text \<open>
  \<^verbatim>\<open>get_stream_info\<close> (lines 314 to 328) at clock reading \<open>now\<close>; \<^verbatim>\<open>None\<close> stands for
  the dictionary \<^verbatim>\<open>{"error": "Stream not found"}\<close>.
\<close>

record stream_info =
  info_stream_id :: string
  is_opened :: bool
  fps :: nat
  frame_width :: nat
  frame_height :: nat
  timestamp :: real
  active_websocket_connections :: nat

definition get_stream_info :: "real \<Rightarrow> optimized \<Rightarrow> string \<Rightarrow> stream_info option" where
  "get_stream_info now self stream_id =
     (case streams self stream_id of
        None \<Rightarrow> None
      | Some cap \<Rightarrow>
          Some \<lparr>info_stream_id = stream_id,
                is_opened = isOpened cap,
                fps = (case fps_counters self stream_id of None \<Rightarrow> 0 | Some n \<Rightarrow> n),
                frame_width = prop_frame_width cap,
                frame_height = prop_frame_height cap,
                timestamp = now,
                active_websocket_connections =
                  card (case active_connections self stream_id of None \<Rightarrow> {} | Some c \<Rightarrow> c)\<rparr>)"

text \<open>
  A server-side \<^verbatim>\<open>WebSocket\<close>. \<open>ws_id\<close> is the object's identity, \<open>outbox\<close> what was
  sent to the client. Sending after the server closed the socket raises
  \<^verbatim>\<open>RuntimeError\<close>; sending to a client that has gone raises \<^verbatim>\<open>WebSocketDisconnect\<close>.
  Both are subclasses of \<^verbatim>\<open>Exception\<close>. \<^verbatim>\<open>accept()\<close> is taken not to raise.
\<close>

datatype message = Text string | Json_info "stream_info option" | Json_heartbeat | Bytes bytes

record websocket =
  ws_id :: nat
  accepted :: bool
  client_gone :: bool
  server_closed :: bool
  outbox :: "message list"

definition ws_accept :: "websocket \<Rightarrow> websocket" where
  "ws_accept ws = ws\<lparr>accepted := True\<rparr>"

definition ws_send :: "websocket \<Rightarrow> message \<Rightarrow> exn + websocket" where
  "ws_send ws m =
     (if server_closed ws then Inl RuntimeError
      else if client_gone ws then Inl WebSocketDisconnect
      else Inr (ws\<lparr>outbox := outbox ws @ [m]\<rparr>))"

definition ws_close :: "websocket \<Rightarrow> exn + websocket" where
  "ws_close ws =
     (if server_closed ws then Inl RuntimeError
      else if client_gone ws then Inl WebSocketDisconnect
      else Inr (ws\<lparr>server_closed := True\<rparr>))"

text \<open>\<^verbatim>\<open>register_websocket\<close> and \<^verbatim>\<open>unregister_websocket\<close> (lines 334 to 343).\<close>

definition register_websocket :: "optimized \<Rightarrow> string \<Rightarrow> websocket \<Rightarrow> optimized" where
  "register_websocket self stream_id ws =
     (let conns = (case active_connections self stream_id of None \<Rightarrow> {} | Some c \<Rightarrow> c)
      in self\<lparr>active_connections :=
                (active_connections self)(stream_id \<mapsto> insert (ws_id ws) conns)\<rparr>)"

definition unregister_websocket :: "optimized \<Rightarrow> string \<Rightarrow> websocket \<Rightarrow> optimized" where
  "unregister_websocket self stream_id ws =
     (case active_connections self stream_id of
        None \<Rightarrow> self
      | Some c \<Rightarrow>
          self\<lparr>active_connections := (active_connections self)(stream_id \<mapsto> c - {ws_id ws})\<rparr>)"


text \<open>
  One pass through the body of the \<^verbatim>\<open>while True\<close> loop of \<^verbatim>\<open>websocket_stream\<close> (lines
  463 to 483). \<open>Break x\<close> leaves the loop: by \<^verbatim>\<open>break\<close> when \<open>x\<close> is \<^verbatim>\<open>None\<close>, by the
  exception \<open>x\<close> that \<^verbatim>\<open>send_text("Stream ended")\<close> raised otherwise. The inner
  \<^verbatim>\<open>try\<close> (lines 468 to 483) ends in \<^verbatim>\<open>except Exception\<close>, which catches whatever
  \<^verbatim>\<open>send_bytes\<close> or \<^verbatim>\<open>send_json\<close> raises, sleeps and lets the loop go on.
\<close>

datatype iter_result = Break "exn option" | Continue

definition websocket_iter ::
    "optimized \<Rightarrow> string \<Rightarrow> websocket \<Rightarrow> iter_result \<times> optimized \<times> websocket" where
  "websocket_iter self stream_id ws =
     (if stream_id \<notin> dom (streams self) then
        (case ws_send ws (Text ''Stream ended'') of
           Inl x \<Rightarrow> (Break (Some x), self, ws)
         | Inr ws' \<Rightarrow> (Break None, self, ws'))
      else
        (case frame_queues self stream_id of
           None \<Rightarrow> (Continue, self, ws)
         | Some q \<Rightarrow>
             (case get_timeout q of
                Inr (frame_data, q') \<Rightarrow>
                  (let self' = self\<lparr>frame_queues := (frame_queues self)(stream_id \<mapsto> q')\<rparr>
                   in (case ws_send ws (Bytes frame_data) of
                         Inl _ \<Rightarrow> (Continue, self', ws)
                       | Inr ws' \<Rightarrow> (Continue, self', ws')))
              | Inl _ \<Rightarrow>
                  (case ws_send ws Json_heartbeat of
                     Inl _ \<Rightarrow> (Continue, self, ws)
                   | Inr ws' \<Rightarrow> (Continue, self, ws')))))"

text \<open>
  What the rest of the system does between two iterations of a delivery loop: nothing,
  the client goes away, \<^verbatim>\<open>remove_stream\<close> is called for the stream, the
  \<^verbatim>\<open>connection.close()\<close> task that \<^verbatim>\<open>remove_stream\<close> scheduled runs, the worker queues
  a frame, or the worker calls \<^verbatim>\<open>_reconnect_stream\<close>, which deletes the stream's capture
  entry and puts it back only if the camera answers, and leaves the consumer set alone.
\<close>

datatype event =
  Idle | ClientDisconnects | RemoveStream | CloseTask | EnqueueFrame frame | WorkerReconnect

definition apply_event ::
    "env \<Rightarrow> event \<Rightarrow> optimized \<Rightarrow> string \<Rightarrow> websocket \<Rightarrow> optimized \<times> websocket" where
  "apply_event env e self stream_id ws =
     (case e of
        Idle \<Rightarrow> (self, ws)
      | ClientDisconnects \<Rightarrow> (self, ws\<lparr>client_gone := True\<rparr>)
      | RemoveStream \<Rightarrow> (fst (snd (remove_stream self stream_id)), ws)
      | CloseTask \<Rightarrow> (self, ws\<lparr>server_closed := True\<rparr>)
      | EnqueueFrame fr \<Rightarrow> (enqueue_frame env self stream_id fr, ws)
      | WorkerReconnect \<Rightarrow> (snd (reconnect_stream env self stream_id), ws))"

text \<open>
  The loop, run against a schedule of events, one before each iteration. \<^verbatim>\<open>None\<close> means
  that the loop is still running when the schedule ends.
\<close>

fun ws_loop ::
    "env \<Rightarrow> event list \<Rightarrow> optimized \<Rightarrow> string \<Rightarrow> websocket
      \<Rightarrow> (exn option \<times> optimized \<times> websocket) option" where
  "ws_loop env [] self stream_id ws = None"
| "ws_loop env (e # es) self stream_id ws =
     (case apply_event env e self stream_id ws of
        (self1, ws1) \<Rightarrow>
          (case websocket_iter self1 stream_id ws1 of
             (Break x, self2, ws2) \<Rightarrow> Some (x, self2, ws2)
           | (Continue, self2, ws2) \<Rightarrow> ws_loop env es self2 stream_id ws2))"

text \<open>
  The endpoint \<^verbatim>\<open>/ws/stream/{stream_id}\<close> (lines 442 to 492). The result is \<^verbatim>\<open>None\<close>
  while the handler is still in its loop at the end of the schedule; otherwise it holds
  the exception that left the handler, if any, the processor and the socket. Before
  registration there is no \<^verbatim>\<open>try\<close>: an exception of the two calls on the not-found path
  leaves the handler. After registration, every exception is caught by
  \<^verbatim>\<open>except WebSocketDisconnect\<close> or \<^verbatim>\<open>except Exception\<close>, and \<^verbatim>\<open>finally\<close> unregisters.
\<close>

definition websocket_stream ::
    "env \<Rightarrow> real \<Rightarrow> event list \<Rightarrow> optimized \<Rightarrow> string \<Rightarrow> websocket
      \<Rightarrow> (exn option \<times> optimized \<times> websocket) option" where
  "websocket_stream env now evs self stream_id websocket =
     (let ws0 = ws_accept websocket
      in if stream_id \<notin> dom (streams self) then
           (case ws_send ws0 (Text (''Error: Stream '' @ stream_id @ '' not found'')) of
              Inl x \<Rightarrow> Some (Some x, self, ws0)
            | Inr ws1 \<Rightarrow>
                (case ws_close ws1 of
                   Inl x \<Rightarrow> Some (Some x, self, ws1)
                 | Inr ws2 \<Rightarrow> Some (None, self, ws2)))
         else
           (let self1 = register_websocket self stream_id ws0
            in (case ws_send ws0 (Json_info (get_stream_info now self1 stream_id)) of
                  Inl _ \<Rightarrow> Some (None, unregister_websocket self1 stream_id ws0, ws0)
                | Inr ws1 \<Rightarrow>
                    (case ws_loop env evs self1 stream_id ws1 of
                       None \<Rightarrow> None
                     | Some (_, self2, ws2) \<Rightarrow>
                         Some (None, unregister_websocket self2 stream_id ws2, ws2)))))"

section \<open>The registry of \<^verbatim>\<open>src/packages/local_app/enhanced_main.py\<close>\<close>

text \<open>
  \<^verbatim>\<open>EnhancedStreamProcessor\<close>. Its fields carry the suffix \<^verbatim>\<open>_e\<close>, since most of them
  share their names with fields of \<^verbatim>\<open>OptimizedStreamProcessor\<close>. A detection is kept
  abstract as a number.
\<close>

record enhanced =
  streams_e :: "string \<rightharpoonup> capture"
  stream_urls_e :: "string \<rightharpoonup> string"
  latest_frames_e :: "string \<rightharpoonup> nat"
  latest_detections_e :: "string \<rightharpoonup> nat list"
  frame_locks_e :: "string \<rightharpoonup> lock"
  processing_threads_e :: "string \<rightharpoonup> thread"
  running_e :: bool
  fps_counters_e :: "string \<rightharpoonup> nat"
  last_fps_time_e :: "string \<rightharpoonup> real"
  detection_fps_e :: "string \<rightharpoonup> nat"
  ai_enabled_e :: bool
  detection_interval_e :: nat
  frame_counters_e :: "string \<rightharpoonup> nat"

text \<open>\<^verbatim>\<open>EnhancedStreamProcessor.__init__\<close> (lines 52 to 71).\<close>

definition enhanced_init :: enhanced where
  "enhanced_init =
     \<lparr>streams_e = Map.empty, stream_urls_e = Map.empty, latest_frames_e = Map.empty,
      latest_detections_e = Map.empty, frame_locks_e = Map.empty,
      processing_threads_e = Map.empty, running_e = True, fps_counters_e = Map.empty,
      last_fps_time_e = Map.empty, detection_fps_e = Map.empty, ai_enabled_e = True,
      detection_interval_e = 5, frame_counters_e = Map.empty\<rparr>"

text \<open>
  \<^verbatim>\<open>EnhancedStreamProcessor.add_stream\<close> (lines 73 to 121). The method does not look
  whether the id is registered already; the lock is stored before the capture is
  constructed.
\<close>

definition add_stream_e ::
    "env \<Rightarrow> real \<Rightarrow> enhanced \<Rightarrow> string \<Rightarrow> string \<Rightarrow> bool \<Rightarrow> bool \<times> enhanced" where
  "add_stream_e env now self stream_id rtsp_url enable_ai =
     (let self1 = self\<lparr>frame_locks_e := (frame_locks_e self)(stream_id \<mapsto> Lock)\<rparr>;
          cap = VideoCapture env rtsp_url
      in if \<not> isOpened cap then (False, self1)
         else (True, self1
            \<lparr>streams_e := (streams_e self1)(stream_id \<mapsto> cap),
             stream_urls_e := (stream_urls_e self1)(stream_id \<mapsto> rtsp_url),
             fps_counters_e := (fps_counters_e self1)(stream_id \<mapsto> 0),
             last_fps_time_e := (last_fps_time_e self1)(stream_id \<mapsto> now),
             frame_counters_e := (frame_counters_e self1)(stream_id \<mapsto> 0),
             latest_detections_e := (latest_detections_e self1)(stream_id \<mapsto> []),
             processing_threads_e :=
               (processing_threads_e self1)(stream_id \<mapsto> ThreadAI stream_id enable_ai)\<rparr>))"

text \<open>
  \<^verbatim>\<open>EnhancedStreamProcessor.remove_stream\<close> (lines 123 to 155); the released capture is
  returned beside the new processor.
\<close>

definition remove_stream_e :: "enhanced \<Rightarrow> string \<Rightarrow> bool \<times> enhanced \<times> capture option" where
  "remove_stream_e self stream_id =
     (True,
      self\<lparr>streams_e := (streams_e self)(stream_id := None),
           latest_frames_e := (latest_frames_e self)(stream_id := None),
           latest_detections_e := (latest_detections_e self)(stream_id := None),
           frame_locks_e := (frame_locks_e self)(stream_id := None),
           processing_threads_e := (processing_threads_e self)(stream_id := None),
           stream_urls_e := (stream_urls_e self)(stream_id := None),
           fps_counters_e := (fps_counters_e self)(stream_id := None),
           last_fps_time_e := (last_fps_time_e self)(stream_id := None),
           detection_fps_e := (detection_fps_e self)(stream_id := None),
           frame_counters_e := (frame_counters_e self)(stream_id := None)\<rparr>,
      map_option release (streams_e self stream_id))"

text \<open>The endpoint \<^verbatim>\<open>DELETE /remove_stream/{stream_id}\<close> (lines 420 to 427).\<close>

definition remove_stream_endpoint_e ::
    "enhanced \<Rightarrow> string \<Rightarrow> reply response \<times> enhanced \<times> capture option" where
  "remove_stream_endpoint_e self stream_id =
     (case remove_stream_e self stream_id of
        (ok, self', rel) \<Rightarrow>
          (if ok then Ok \<lparr>success = True, message = ''Stream removed successfully''\<rparr>
           else HTTPException 404 ''Stream not found'',
           self', rel))"

text \<open>
  \<^verbatim>\<open>EnhancedStreamProcessor._reconnect_stream\<close> (lines 157 to 208). The old capture is
  released but stays in \<open>streams\<close> until a new one replaces it. The new capture replaces
  it only after it has opened and a trial \<^verbatim>\<open>read()\<close> on it has returned a frame; it
  is stored as the read left it.
\<close>

definition reconnect_stream_e :: "env \<Rightarrow> enhanced \<Rightarrow> string \<Rightarrow> bool \<times> enhanced" where
  "reconnect_stream_e env self stream_id =
     (case stream_urls_e self stream_id of
        None \<Rightarrow> (False, self)
      | Some rtsp_url \<Rightarrow>
          (let self1 = (case streams_e self stream_id of
                          None \<Rightarrow> self
                        | Some old \<Rightarrow>
                            self\<lparr>streams_e := (streams_e self)(stream_id \<mapsto> release old)\<rparr>);
               cap = VideoCapture env rtsp_url
           in if \<not> isOpened cap then (False, self1)
              else
                (case read_cap cap of
                   ((ret, frame), cap') \<Rightarrow>
                     if \<not> ret \<or> frame = None then (False, self1)
                     else (True, self1\<lparr>streams_e := (streams_e self1)(stream_id \<mapsto> cap')\<rparr>))))"





section \<open>Concrete cameras and states\<close>

text \<open>
  Inputs on which the definitions are evaluated below. \<open>demo_env\<close> knows one camera,
  at \<^verbatim>\<open>rtsp://cam/live\<close>, that opens and delivers a landscape frame of 1920 by 1080, a
  portrait frame of 720 by 1600 and a small frame of 640 by 480; any other URL gives a
  capture that is not open. Its
  encoder writes the shape of the frame and the quality into the buffer, so that the
  buffer shows what was encoded. \<open>idle_env\<close> is the same with a camera that opens and
  delivers nothing.
\<close>

definition landscape :: frame where
  "landscape = \<lparr>rows = 1080, cols = 1920, pixels = [7, 7, 7]\<rparr>"

definition portrait :: frame where
  "portrait = \<lparr>rows = 1600, cols = 720, pixels = [9, 9]\<rparr>"

definition small :: frame where
  "small = \<lparr>rows = 480, cols = 640, pixels = [5]\<rparr>"

text \<open>A frame on which binary64 rounding shows, and one that is wider than 1280 times its
  height.\<close>

definition wide :: frame where
  "wide = \<lparr>rows = 537, cols = 1432, pixels = [3]\<rparr>"

definition sliver :: frame where
  "sliver = \<lparr>rows = 1, cols = 2000, pixels = [4]\<rparr>"

definition camera :: capture where
  "camera = \<lparr>opened = True,
             pending = [(True, Some landscape), (True, Some portrait), (True, Some small)],
             prop_frame_width = 1920, prop_frame_height = 1080\<rparr>"

definition silent_camera :: capture where
  "silent_camera = \<lparr>opened = True, pending = [], prop_frame_width = 0, prop_frame_height = 0\<rparr>"

definition dead_camera :: capture where
  "dead_camera = \<lparr>opened = False, pending = [], prop_frame_width = 0, prop_frame_height = 0\<rparr>"

definition demo_env :: env where
  "demo_env =
     \<lparr>VideoCapture = (\<lambda>url. if url = ''rtsp://cam/live'' then camera else dead_camera),
      resize_pixels = (\<lambda>f w h. pixels f),
      imencode = (\<lambda>f q. Inr [rows f, cols f, nat q]),
      urlparse_hostname = (\<lambda>url. Inr (Some ''cam''))\<rparr>"

definition idle_env :: env where
  "idle_env = demo_env\<lparr>VideoCapture := (\<lambda>url. silent_camera)\<rparr>"

text \<open>\<open>dead_env\<close> is \<open>demo_env\<close> after the camera has gone: no capture opens.\<close>

definition dead_env :: env where
  "dead_env = demo_env\<lparr>VideoCapture := (\<lambda>url. dead_camera)\<rparr>"

text \<open>The processors after \<^verbatim>\<open>cam1\<close> was added at time 0.\<close>

definition one_stream :: optimized where
  "one_stream = snd (add_stream demo_env 0 optimized_init ''cam1'' ''rtsp://cam/live'')"

definition one_stream_e :: enhanced where
  "one_stream_e =
     snd (add_stream_e demo_env 0 enhanced_init ''cam1'' ''rtsp://cam/live'' True)"

text \<open>The first three iterations of the worker of \<open>one_stream\<close>, at times 1, 2 and 3:
  each result is outcome, store, processor and worker variables.\<close>

definition after_one :: "outcome \<times> store \<times> optimized \<times> worker" where
  "after_one = process_stream_iter demo_env 1 [] one_stream ''cam1'' (worker_init 0)"

definition after_two :: "outcome \<times> store \<times> optimized \<times> worker" where
  "after_two =
     process_stream_iter demo_env 2 (fst (snd after_one)) (fst (snd (snd after_one))) ''cam1''
       (snd (snd (snd after_one)))"

definition after_three :: "outcome \<times> store \<times> optimized \<times> worker" where
  "after_three =
     process_stream_iter demo_env 3 (fst (snd after_two)) (fst (snd (snd after_two))) ''cam1''
       (snd (snd (snd after_two)))"

text \<open>\<open>one_stream\<close> with a full queue.\<close>

definition full_stream :: optimized where
  "full_stream = one_stream\<lparr>frame_queues := [''cam1'' \<mapsto> \<lparr>maxsize = 2, items = [[1], [2]]\<rparr>]\<rparr>"

text \<open>\<open>one_stream\<close> with a cached frame at address 0 of the store \<open>[landscape]\<close>.\<close>

definition cached_stream :: optimized where
  "cached_stream = one_stream\<lparr>latest_frames := [''cam1'' \<mapsto> 0]\<rparr>"

text \<open>A consumer that has just connected, and one that has already gone away.\<close>

definition gone_client :: websocket where
  "gone_client = \<lparr>ws_id = 2, accepted = False, client_gone = True, server_closed = False,
                  outbox = []\<rparr>"

definition client :: websocket where
  "client = \<lparr>ws_id = 1, accepted = False, client_gone = False, server_closed = False,
             outbox = []\<rparr>"

section \<open>Properties\<close>

subsection \<open>Quality clamping\<close>

lemma qualities_in_range_initial: "qualities_in_range initial_stream_processor"
  by (simp add: qualities_in_range_def initial_stream_processor_def)

text \<open>
  Claim C10. For a stream present in the registry and any integer quality,
  \<^verbatim>\<open>set_stream_quality\<close> stores exactly \<^verbatim>\<open>max(1, min(100, quality))\<close> under the stream's
  id, changes nothing else and returns true; the stored value lies between 1 and 100, and
  a processor whose stored qualities were all in that range keeps them so. For an absent
  stream it returns false and leaves the processor as it was.
\<close>

theorem set_stream_quality_clamps:
  "(stream_id \<in> dom (streams_sp self) \<longrightarrow>
      set_stream_quality self stream_id quality =
        (True, self\<lparr>stream_qualities_sp :=
                 (stream_qualities_sp self)(stream_id \<mapsto> max 1 (min 100 quality))\<rparr>)
      \<and> 1 \<le> max 1 (min 100 quality) \<and> max 1 (min 100 quality) \<le> 100)
   \<and> (stream_id \<notin> dom (streams_sp self) \<longrightarrow>
        set_stream_quality self stream_id quality = (False, self))
   \<and> (qualities_in_range self \<longrightarrow>
        qualities_in_range (snd (set_stream_quality self stream_id quality)))"
proof (intro conjI impI)
  assume present: "stream_id \<in> dom (streams_sp self)"
  then show "set_stream_quality self stream_id quality =
      (True, self\<lparr>stream_qualities_sp :=
               (stream_qualities_sp self)(stream_id \<mapsto> max 1 (min 100 quality))\<rparr>)"
    by (simp add: set_stream_quality_def Let_def)
next
  show "1 \<le> max 1 (min 100 quality)" by simp
next
  show "max 1 (min 100 quality) \<le> 100" by simp
next
  assume "stream_id \<notin> dom (streams_sp self)"
  then show "set_stream_quality self stream_id quality = (False, self)"
    by (simp add: set_stream_quality_def)
next
  assume inv: "qualities_in_range self"
  show "qualities_in_range (snd (set_stream_quality self stream_id quality))"
  proof (cases "stream_id \<in> dom (streams_sp self)")
    case False
    with inv show ?thesis by (simp add: set_stream_quality_def)
  next
    case True
    with inv show ?thesis
      by (auto simp: set_stream_quality_def Let_def qualities_in_range_def)
  qed
qed

theorem set_stream_quality_clamps_witness:
  "set_stream_quality initial_stream_processor ''test_stream'' 250 =
     (True, initial_stream_processor\<lparr>stream_qualities_sp := [''test_stream'' \<mapsto> 100]\<rparr>)
   \<and> set_stream_quality initial_stream_processor ''ghost'' 250 = (False, initial_stream_processor)
   \<and> qualities_in_range (snd (set_stream_quality initial_stream_processor ''test_stream'' (- 7)))"
proof -
  have present: "''test_stream'' \<in> dom (streams_sp initial_stream_processor)"
    by (simp add: initial_stream_processor_def)
  have absent: "''ghost'' \<notin> dom (streams_sp initial_stream_processor)"
    by (simp add: initial_stream_processor_def)
  have a: "set_stream_quality initial_stream_processor ''test_stream'' 250 =
     (True, initial_stream_processor\<lparr>stream_qualities_sp := [''test_stream'' \<mapsto> 100]\<rparr>)"
    using set_stream_quality_clamps [of "''test_stream''" initial_stream_processor 250] present
    by (simp add: initial_stream_processor_def)
  have b: "set_stream_quality initial_stream_processor ''ghost'' 250 = (False, initial_stream_processor)"
    using set_stream_quality_clamps [of "''ghost''" initial_stream_processor 250] absent
    by blast
  have c: "qualities_in_range (snd (set_stream_quality initial_stream_processor ''test_stream'' (- 7)))"
    using set_stream_quality_clamps [of "''test_stream''" initial_stream_processor "- 7"]
      qualities_in_range_initial
    by blast
  from a b c show ?thesis by blast
qed

subsection \<open>The frame cache\<close>

text \<open>What the pieces of a worker iteration leave alone.\<close>

lemma enqueue_frame_keeps:
  "latest_frames (enqueue_frame env self sid fr) = latest_frames self"
  "frame_locks (enqueue_frame env self sid fr) = frame_locks self"
  "last_fps_time (enqueue_frame env self sid fr) = last_fps_time self"
  "streams (enqueue_frame env self sid fr) = streams self"
  by (simp_all add: enqueue_frame_def Let_def split: option.splits sum.splits prod.splits)

lemma update_fps_keeps:
  "update_fps now self sid w = Inr (self', w') \<Longrightarrow>
     latest_frames self' = latest_frames self \<and> frame_locks self' = frame_locks self"
  by (auto simp: update_fps_def Let_def split: option.splits if_splits)

lemma reconnect_stream_keeps:
  "latest_frames (snd (reconnect_stream env self sid)) = latest_frames self"
  "frame_locks (snd (reconnect_stream env self sid)) = frame_locks self"
  by (simp_all add: reconnect_stream_def Let_def split: option.splits)

lemma try_reconnect_keeps:
  "latest_frames (fst (try_reconnect env now limit b self sid w)) = latest_frames self"
  "frame_locks (fst (try_reconnect env now limit b self sid w)) = frame_locks self"
  using reconnect_stream_keeps [of env self sid]
  by (auto simp: try_reconnect_def split: prod.splits bool.splits)

lemma on_read_failure_keeps:
  "latest_frames (fst (on_read_failure env now self sid w)) = latest_frames self"
  "frame_locks (fst (on_read_failure env now self sid w)) = frame_locks self"
  by (simp_all add: on_read_failure_def Let_def try_reconnect_keeps)

lemma on_frame_publishes:
  assumes "on_frame env now st self sid w fr = (e, st1, self1, w1)"
      and "sid \<in> dom (frame_locks self)"
  shows "st1 = st @ [fr] \<and> latest_frames self1 sid = Some (length st)
         \<and> frame_locks self1 = frame_locks self"
  using assms
  by (auto simp: on_frame_def Let_def alloc_def enqueue_frame_keeps
      split: option.splits sum.splits prod.splits dest: update_fps_keeps)

lemma iter_frame_read:
  assumes "process_stream_iter env now st self sid w = (FrameRead fr e, st1, self1, w1)"
      and "sid \<in> dom (frame_locks self)"
  shows "st1 = st @ [fr] \<and> latest_frames self1 sid = Some (length st)
         \<and> frame_locks self1 = frame_locks self"
proof -
  from assms(1) obtain self0 w0 where
    "on_frame env now st self0 sid w0 fr = (e, st1, self1, w1)"
    and "frame_locks self0 = frame_locks self"
    by (auto simp: process_stream_iter_def Let_def split: option.splits if_splits prod.splits)
  with assms(2) show ?thesis
    using on_frame_publishes [of env now st self0 sid w0 fr e st1 self1 w1] by simp
qed

lemma try_reconnect_keeps':
  "try_reconnect env now limit b self sid w = (self', w') \<Longrightarrow>
     latest_frames self' = latest_frames self \<and> frame_locks self' = frame_locks self"
  using try_reconnect_keeps [of env now limit b self sid w] by simp

lemma on_read_failure_keeps':
  "on_read_failure env now self sid w = (self', w') \<Longrightarrow>
     latest_frames self' = latest_frames self \<and> frame_locks self' = frame_locks self"
  using on_read_failure_keeps [of env now self sid w] by simp

lemma iter_no_frame:
  assumes "process_stream_iter env now st self sid w = (out, st1, self1, w1)"
      and "\<forall>fr e. out \<noteq> FrameRead fr e"
  shows "st1 = st \<and> latest_frames self1 = latest_frames self"
  using assms
  by (auto simp: process_stream_iter_def Let_def
      split: option.splits if_splits prod.splits
      dest!: try_reconnect_keeps' on_read_failure_keeps')


lemma get_latest_frame_none:
  "stream_id \<notin> dom (frame_locks self) \<or> latest_frames self stream_id = None \<Longrightarrow>
     get_latest_frame st self stream_id = (None, st)"
  by (auto simp: get_latest_frame_def)

lemma get_latest_frame_copy:
  "stream_id \<in> dom (frame_locks self) \<Longrightarrow> latest_frames self stream_id = Some a \<Longrightarrow>
     get_latest_frame st self stream_id = (Some (length st), st @ [st ! a])"
  by (auto simp: get_latest_frame_def ndarray_copy_def alloc_def)

text \<open>
  The registry operations keep \<open>registry_ok\<close>, so the stream of a worker iteration that
  read a frame has its lock and its queue; and the worker and \<^verbatim>\<open>get_latest_frame\<close> keep
  the cached addresses inside the store.
\<close>

lemma registry_ok_init: "registry_ok optimized_init"
  by (simp add: registry_ok_def optimized_init_def)

lemma registry_ok_add_stream:
  "registry_ok self \<Longrightarrow> registry_ok (snd (add_stream env now self stream_id url))"
  by (auto simp: registry_ok_def add_stream_def Let_def)

lemma registry_ok_remove_stream:
  "registry_ok self \<Longrightarrow> registry_ok (fst (snd (remove_stream self stream_id)))"
  by (auto simp: registry_ok_def remove_stream_def)

lemma registry_ok_reconnect_stream:
  "registry_ok self \<Longrightarrow> registry_ok (snd (reconnect_stream env self stream_id))"
  by (auto simp: registry_ok_def reconnect_stream_def Let_def split: option.splits)

lemma registry_ok_lock:
  "registry_ok self \<Longrightarrow> stream_id \<in> dom (streams self) \<Longrightarrow>
     stream_id \<in> dom (frame_locks self) \<and> stream_id \<in> dom (frame_queues self)"
  unfolding registry_ok_def by blast

lemma iter_reads_registered:
  "process_stream_iter env now st self stream_id w = (FrameRead fr e, st1, self1, w1) \<Longrightarrow>
     stream_id \<in> dom (streams self)"
  by (auto simp: process_stream_iter_def split: option.splits if_splits)

lemma cache_in_store_init: "cache_in_store [] optimized_init"
  by (simp add: cache_in_store_def optimized_init_def)

lemma cache_in_store_iter:
  assumes "cache_in_store st self"
      and "process_stream_iter env now st self stream_id w = (out, st1, self1, w1)"
  shows "cache_in_store st1 self1"
proof (cases "\<exists>fr e. out = FrameRead fr e")
  case False
  with assms iter_no_frame [of env now st self stream_id w out st1 self1 w1]
  show ?thesis by (simp add: cache_in_store_def)
next
  case True
  then obtain fr e where out: "out = FrameRead fr e" by blast
  with assms(2) obtain self0 w0 where
    on: "on_frame env now st self0 stream_id w0 fr = (e, st1, self1, w1)"
    and same: "latest_frames self0 = latest_frames self"
    by (auto simp: process_stream_iter_def Let_def split: option.splits if_splits prod.splits)
  from on have "(st1 = st \<and> latest_frames self1 = latest_frames self0)
      \<or> (st1 = st @ [fr] \<and> latest_frames self1 = (latest_frames self0)(stream_id \<mapsto> length st))"
    by (auto simp: on_frame_def Let_def alloc_def enqueue_frame_keeps
        split: option.splits sum.splits prod.splits dest!: update_fps_keeps)
  with assms(1) same show ?thesis
    by (auto simp: cache_in_store_def less_Suc_eq split: if_splits)
qed

lemma cache_in_store_get:
  "cache_in_store st self \<Longrightarrow>
     cache_in_store (snd (get_latest_frame st self stream_id)) self"
  by (auto simp: cache_in_store_def get_latest_frame_def ndarray_copy_def alloc_def
      less_Suc_eq split: option.splits)

text \<open>
  Claim C1. After an iteration of the ingestion worker that read the frame \<open>fr\<close>, for
  a stream that has its lock, the cache holds an array equal to \<open>fr\<close>, and
  \<^verbatim>\<open>get_latest_frame\<close> returns a new array equal to \<open>fr\<close>: its address differs from the
  cached one, and whatever the caller writes into it, the cached array still equals
  \<open>fr\<close>. An iteration that read no frame leaves store and cache as they were, so the
  cache always holds the most recently read frame. For an id without a lock (never added,
  or removed) and for an id without a cached frame, \<^verbatim>\<open>get_latest_frame\<close> returns
  \<^verbatim>\<open>None\<close> and allocates nothing.
\<close>

theorem latest_frame_fresh_copy:
  "(process_stream_iter env now st self stream_id w = (FrameRead fr e, st1, self1, w1)
      \<and> stream_id \<in> dom (frame_locks self) \<longrightarrow>
        latest_frames self1 stream_id = Some (length st) \<and> st1 ! length st = fr
        \<and> get_latest_frame st1 self1 stream_id = (Some (length st1), st1 @ [fr])
        \<and> (st1 @ [fr]) ! length st1 = fr
        \<and> length st1 \<noteq> length st
        \<and> (\<forall>g. ndarray_write (st1 @ [fr]) (length st1) g ! length st = fr))
   \<and> (process_stream_iter env now st self stream_id w = (out, st1, self1, w1)
        \<and> (\<forall>fr e. out \<noteq> FrameRead fr e) \<longrightarrow>
        st1 = st \<and> latest_frames self1 = latest_frames self)
   \<and> (stream_id \<notin> dom (frame_locks self) \<or> latest_frames self stream_id = None \<longrightarrow>
        get_latest_frame st self stream_id = (None, st))"
proof (intro conjI impI)
  assume a: "process_stream_iter env now st self stream_id w = (FrameRead fr e, st1, self1, w1)
      \<and> stream_id \<in> dom (frame_locks self)"
  then have st1: "st1 = st @ [fr]"
    and cached: "latest_frames self1 stream_id = Some (length st)"
    and locks: "frame_locks self1 = frame_locks self"
    using iter_frame_read [of env now st self stream_id w fr e st1 self1 w1] by simp_all
  from cached show "latest_frames self1 stream_id = Some (length st)" .
  from st1 show "st1 ! length st = fr" by simp
  from a locks have "stream_id \<in> dom (frame_locks self1)" by simp
  from get_latest_frame_copy [OF this cached, of st1] st1
  show "get_latest_frame st1 self1 stream_id = (Some (length st1), st1 @ [fr])" by simp
  show "(st1 @ [fr]) ! length st1 = fr" by simp
  from st1 show "length st1 \<noteq> length st" by simp
  from st1 show "\<forall>g. ndarray_write (st1 @ [fr]) (length st1) g ! length st = fr"
    by (simp add: ndarray_write_def nth_append)
next
  assume "process_stream_iter env now st self stream_id w = (out, st1, self1, w1)
      \<and> (\<forall>fr e. out \<noteq> FrameRead fr e)"
  then show "st1 = st" and "latest_frames self1 = latest_frames self"
    using iter_no_frame [of env now st self stream_id w out st1 self1 w1] by simp_all
next
  assume "stream_id \<notin> dom (frame_locks self) \<or> latest_frames self stream_id = None"
  then show "get_latest_frame st self stream_id = (None, st)"
    by (rule get_latest_frame_none)
qed

text \<open>The fields of \<open>one_stream\<close>, and its first worker iterations.\<close>

lemma one_stream_simps:
  "streams one_stream = [''cam1'' \<mapsto> camera]"
  "frame_locks one_stream = [''cam1'' \<mapsto> Lock]"
  "frame_queues one_stream = [''cam1'' \<mapsto> Queue 2]"
  "latest_frames one_stream = Map.empty"
  "last_fps_time one_stream = [''cam1'' \<mapsto> 0]"
  "consecutive_failures one_stream = [''cam1'' \<mapsto> 0]"
  "stream_urls one_stream = [''cam1'' \<mapsto> ''rtsp://cam/live'']"
  "active_connections one_stream = [''cam1'' \<mapsto> {}]"
  "running one_stream = True"
  "jpeg_quality one_stream = 40"
  "max_fps one_stream = 30"
  "max_consecutive_failures one_stream = 30"
  by (simp_all add: one_stream_def add_stream_def optimized_init_def demo_env_def
      camera_def isOpened_def Let_def)

lemma full_stream_simps:
  "frame_queues full_stream = [''cam1'' \<mapsto> \<lparr>maxsize = 2, items = [[1], [2]]\<rparr>]"
  "jpeg_quality full_stream = 40"
  by (simp_all add: full_stream_def one_stream_simps)

lemma demo_imencode: "imencode demo_env f q = Inr [rows f, cols f, nat q]"
  by (simp add: demo_env_def)

lemma first_iteration:
  "fst (process_stream_iter demo_env 1 [] one_stream ''cam1'' (worker_init 0))
     = FrameRead landscape None"
  by (simp add: process_stream_iter_def one_stream_simps camera_def isOpened_def
      worker_init_def read_cap_def Let_def on_frame_def alloc_def update_fps_def
      enqueue_frame_keeps)

lemma first_iteration_store:
  "fst (snd (process_stream_iter demo_env 1 [] one_stream ''cam1'' (worker_init 0)))
     = [landscape]"
  by (simp add: process_stream_iter_def one_stream_simps camera_def isOpened_def
      worker_init_def read_cap_def Let_def on_frame_def alloc_def update_fps_def
      enqueue_frame_keeps)

lemma idle_iteration:
  "process_stream_iter demo_env 1 [] optimized_init ''cam1'' (worker_init 0)
     = (Exited, [], optimized_init, worker_init 0)"
  by (simp add: process_stream_iter_def optimized_init_def)

theorem latest_frame_fresh_copy_witness:
  "get_latest_frame [landscape]
      (fst (snd (snd (process_stream_iter demo_env 1 [] one_stream ''cam1'' (worker_init 0)))))
      ''cam1''
     = (Some 1, [landscape, landscape])
   \<and> ndarray_write [landscape, landscape] 1 portrait ! 0 = landscape
   \<and> latest_frames (fst (snd (snd
         (process_stream_iter demo_env 1 [] optimized_init ''cam1'' (worker_init 0)))))
       = latest_frames optimized_init
   \<and> get_latest_frame [] optimized_init ''cam1'' = (None, [])"
proof -
  let ?r = "process_stream_iter demo_env 1 [] one_stream ''cam1'' (worker_init 0)"
  let ?i = "process_stream_iter demo_env 1 [] optimized_init ''cam1'' (worker_init 0)"
  have run: "?r = (FrameRead landscape None, [landscape], fst (snd (snd ?r)), snd (snd (snd ?r)))"
    using first_iteration first_iteration_store by (metis prod.collapse)
  have lock: "''cam1'' \<in> dom (frame_locks one_stream)"
    by (simp add: one_stream_simps)
  have a: "get_latest_frame [landscape] (fst (snd (snd ?r))) ''cam1''
             = (Some 1, [landscape, landscape])
           \<and> ndarray_write [landscape, landscape] 1 portrait ! 0 = landscape"
    using latest_frame_fresh_copy [of demo_env 1 "[]" one_stream "''cam1''" "worker_init 0"
        landscape None "[landscape]" "fst (snd (snd ?r))" "snd (snd (snd ?r))"] run lock
    by simp
  have idle: "?i = (Exited, [], fst (snd (snd ?i)), snd (snd (snd ?i)))"
    using idle_iteration by simp
  have b: "latest_frames (fst (snd (snd ?i))) = latest_frames optimized_init"
    using latest_frame_fresh_copy [of demo_env 1 "[]" optimized_init "''cam1''" "worker_init 0"
        _ _ "[]" "fst (snd (snd ?i))" "snd (snd (snd ?i))" Exited] idle
    by simp
  have c: "get_latest_frame [] optimized_init ''cam1'' = (None, [])"
    using latest_frame_fresh_copy [of _ _ "[]" optimized_init "''cam1''"]
    by (simp add: optimized_init_def)
  from a b c show ?thesis by blast
qed

subsection \<open>The distribution queue\<close>

text \<open>Evaluating the float arithmetic and the resize step on the demo frames.\<close>

lemmas binary64_eval = binary64_times_def binary64_div_def int_of_binary64_def
  round_half_even_def bit_length.simps Let_def

lemma height_landscape:
  "int_of_binary64 (binary64_times 1080 (binary64_div 1280 1920)) = 720"
  by (simp add: binary64_eval)

lemma height_wide:
  "int_of_binary64 (binary64_times 537 (binary64_div 1280 1432)) = 479"
  by (simp add: binary64_eval)

lemma height_sliver:
  "int_of_binary64 (binary64_times 1 (binary64_div 1280 2000)) = 0"
  by (simp add: binary64_eval)

lemma resize_landscape:
  "resize_for_queue demo_env landscape = Inr \<lparr>rows = 720, cols = 1280, pixels = [7, 7, 7]\<rparr>"
  by (simp add: resize_for_queue_def cv2_resize_def landscape_def demo_env_def Let_def
      height_landscape)

lemma resize_portrait: "resize_for_queue demo_env portrait = Inr portrait"
  by (simp add: resize_for_queue_def portrait_def)

lemma resize_small: "resize_for_queue demo_env small = Inr small"
  by (simp add: resize_for_queue_def small_def)

lemma resize_wide:
  "resize_for_queue demo_env wide = Inr \<lparr>rows = 479, cols = 1280, pixels = [3]\<rparr>"
  by (simp add: resize_for_queue_def cv2_resize_def wide_def demo_env_def Let_def height_wide)

lemma resize_sliver: "resize_for_queue demo_env sliver = Inl Cv2Error"
  by (simp add: resize_for_queue_def cv2_resize_def sliver_def Let_def height_sliver)

lemma enqueue_frame_quality:
  "jpeg_quality (enqueue_frame env self sid fr) = jpeg_quality self"
  by (simp add: enqueue_frame_def Let_def split: option.splits sum.splits prod.splits)


text \<open>The first three worker iterations of \<open>one_stream\<close>, field by field.\<close>

lemmas iter_eval = process_stream_iter_def isOpened_def read_cap_def Let_def on_frame_def
  alloc_def update_fps_def enqueue_frame_def full_def put_nowait_def get_nowait_def Queue_def
  demo_imencode

lemma after_one_simps:
  "fst after_one = FrameRead landscape None"
  "fst (snd after_one) = [landscape]"
  "streams (fst (snd (snd after_one))) ''cam1''
     = Some (camera\<lparr>pending := [(True, Some portrait), (True, Some small)]\<rparr>)"
  "frame_locks (fst (snd (snd after_one))) = [''cam1'' \<mapsto> Lock]"
  "frame_queues (fst (snd (snd after_one))) ''cam1''
     = Some \<lparr>maxsize = 2, items = [[720, 1280, 40]]\<rparr>"
  "last_fps_time (fst (snd (snd after_one))) ''cam1'' = Some 1"
  "consecutive_failures (fst (snd (snd after_one))) ''cam1'' = Some 0"
  "running (fst (snd (snd after_one)))"
  "max_fps (fst (snd (snd after_one))) = 30"
  "jpeg_quality (fst (snd (snd after_one))) = 40"
  "last_successful_frame_time (snd (snd (snd after_one))) = 1"
  "last_frame_time (snd (snd (snd after_one))) = 1"
  by (simp_all add: after_one_def iter_eval one_stream_simps camera_def worker_init_def
      resize_landscape)


lemma after_two_simps:
  "fst after_two = FrameRead portrait None"
  "fst (snd after_two) = [landscape, portrait]"
  "streams (fst (snd (snd after_two))) ''cam1''
     = Some (camera\<lparr>pending := [(True, Some small)]\<rparr>)"
  "frame_locks (fst (snd (snd after_two))) = [''cam1'' \<mapsto> Lock]"
  "frame_queues (fst (snd (snd after_two))) ''cam1''
     = Some \<lparr>maxsize = 2, items = [[720, 1280, 40], [1600, 720, 40]]\<rparr>"
  "last_fps_time (fst (snd (snd after_two))) ''cam1'' = Some 2"
  "consecutive_failures (fst (snd (snd after_two))) ''cam1'' = Some 0"
  "running (fst (snd (snd after_two)))"
  "max_fps (fst (snd (snd after_two))) = 30"
  "jpeg_quality (fst (snd (snd after_two))) = 40"
  "last_successful_frame_time (snd (snd (snd after_two))) = 2"
  "last_frame_time (snd (snd (snd after_two))) = 2"
  by (simp_all add: after_two_def iter_eval after_one_simps camera_def resize_portrait)
     (simp_all add: portrait_def)

lemma after_three_simps:
  "fst after_three = FrameRead small None"
  "fst (snd after_three) = [landscape, portrait, small]"
  "frame_queues (fst (snd (snd after_three))) ''cam1''
     = Some \<lparr>maxsize = 2, items = [[1600, 720, 40], [480, 640, 40]]\<rparr>"
  by (simp_all add: after_three_def iter_eval after_two_simps camera_def resize_small)
     (simp_all add: small_def)

text \<open>The queue after a worker iteration is the queue after its queueing step, and that
  step is a drop-oldest push of what the encoder returned.\<close>

lemma enqueue_frame_cong:
  "frame_queues x = frame_queues y \<Longrightarrow> jpeg_quality x = jpeg_quality y \<Longrightarrow>
     frame_queues (enqueue_frame env x sid fr) = frame_queues (enqueue_frame env y sid fr)"
  by (simp add: enqueue_frame_def Let_def split: option.splits sum.splits prod.splits)

lemma update_fps_queues:
  "update_fps now self sid w = Inr (self', w') \<Longrightarrow> frame_queues self' = frame_queues self"
  by (auto simp: update_fps_def Let_def split: option.splits if_splits)

lemma on_frame_queues:
  assumes "on_frame env now st self sid w fr = (e, st1, self1, w1)"
      and "sid \<in> dom (frame_locks self)"
  shows "frame_queues self1 = frame_queues (enqueue_frame env self sid fr)"
  using assms
  by (auto simp: on_frame_def Let_def alloc_def
      split: option.splits sum.splits prod.splits
      dest!: update_fps_queues intro!: enqueue_frame_cong)

lemma iter_queues:
  assumes "process_stream_iter env now st self sid w = (FrameRead fr e, st1, self1, w1)"
      and "sid \<in> dom (frame_locks self)"
  shows "frame_queues self1 = frame_queues (enqueue_frame env self sid fr)"
proof -
  from assms(1) obtain self0 w0 where
    "on_frame env now st self0 sid w0 fr = (e, st1, self1, w1)"
    and "frame_locks self0 = frame_locks self"
    and "frame_queues self0 = frame_queues self" and "jpeg_quality self0 = jpeg_quality self"
    by (auto simp: process_stream_iter_def Let_def split: option.splits if_splits prod.splits)
  with assms(2) show ?thesis
    using on_frame_queues [of env now st self0 sid w0 fr e st1 self1 w1]
      enqueue_frame_cong [of self0 self env sid fr] by simp
qed

lemma update_fps_quality:
  "update_fps now self sid w = Inr (self', w') \<Longrightarrow> jpeg_quality self' = jpeg_quality self"
  by (auto simp: update_fps_def Let_def split: option.splits if_splits)

lemma iter_quality:
  assumes "process_stream_iter env now st self sid w = (FrameRead fr e, st1, self1, w1)"
  shows "jpeg_quality self1 = jpeg_quality self"
  using assms
  by (auto simp: process_stream_iter_def on_frame_def Let_def alloc_def enqueue_frame_quality
      split: option.splits if_splits prod.splits sum.splits dest!: update_fps_quality)

lemma enqueue_frame_exact:
  assumes "frame_queues self sid = Some q" and "maxsize q = 2" and "length (items q) \<le> 2"
  shows "frame_queues (enqueue_frame env self sid fr) sid =
     Some (q\<lparr>items := (if length (items q) = 2 then tl (items q) else items q)
        @ (case resize_for_queue env fr of
             Inl _ \<Rightarrow> []
           | Inr fr' \<Rightarrow>
               (case imencode env fr' (jpeg_quality self) of Inl _ \<Rightarrow> [] | Inr b \<Rightarrow> [b]))\<rparr>)"
  using assms
  by (auto simp: enqueue_frame_def Let_def full_def get_nowait_def put_nowait_def
      split: list.splits sum.splits)

lemma iter_pushes:
  assumes "process_stream_iter env now st self sid w = (FrameRead fr e, st1, self1, w1)"
      and "sid \<in> dom (frame_locks self)"
      and "frame_queues self sid = Some q" and "maxsize q = 2" and "length (items q) \<le> 2"
      and "resize_for_queue env fr = Inr fr'" and "imencode env fr' (jpeg_quality self) = Inr b"
  shows "frame_queues self1 sid =
     Some (q\<lparr>items := (if length (items q) = 2 then tl (items q) else items q) @ [b]\<rparr>)"
  using iter_queues [OF assms(1,2)] enqueue_frame_exact [OF assms(3,4,5), of env fr] assms(6,7)
  by simp

lemma iter_bounded:
  assumes "process_stream_iter env now st self sid w = (FrameRead fr e, st1, self1, w1)"
      and "sid \<in> dom (frame_locks self)"
      and "frame_queues self sid = Some q" and "maxsize q = 2" and "length (items q) \<le> 2"
  shows "\<exists>q'. frame_queues self1 sid = Some q' \<and> maxsize q' = 2 \<and> length (items q') \<le> 2"
  using iter_queues [OF assms(1,2)] enqueue_frame_exact [OF assms(3,4,5), of env fr] assms(4,5)
  by (auto split: sum.splits)

lemma three_frames:
  assumes i1: "process_stream_iter env t1 st0 s0 sid w0 = (FrameRead f1 e1, st1, s1, w1)"
      and i2: "process_stream_iter env t2 st1 s1 sid w1 = (FrameRead f2 e2, st2, s2, w2)"
      and i3: "process_stream_iter env t3 st2 s2 sid w2 = (FrameRead f3 e3, st3, s3, w3)"
      and lock: "sid \<in> dom (frame_locks s0)"
      and q0: "frame_queues s0 sid = Some (Queue 2)"
      and enc1: "resize_for_queue env f1 = Inr g1" "imencode env g1 (jpeg_quality s0) = Inr b1"
      and enc2: "resize_for_queue env f2 = Inr g2" "imencode env g2 (jpeg_quality s0) = Inr b2"
      and enc3: "resize_for_queue env f3 = Inr g3" "imencode env g3 (jpeg_quality s0) = Inr b3"
  shows "frame_queues s1 sid = Some \<lparr>maxsize = 2, items = [b1]\<rparr>"
    and "frame_queues s2 sid = Some \<lparr>maxsize = 2, items = [b1, b2]\<rparr>"
    and "frame_queues s3 sid = Some \<lparr>maxsize = 2, items = [b2, b3]\<rparr>"
proof -
  have l1: "sid \<in> dom (frame_locks s1)" and j1: "jpeg_quality s1 = jpeg_quality s0"
    using iter_frame_read [OF i1 lock] iter_quality [OF i1] lock by simp_all
  have l2: "sid \<in> dom (frame_locks s2)" and j2: "jpeg_quality s2 = jpeg_quality s0"
    using iter_frame_read [OF i2 l1] iter_quality [OF i2] l1 j1 by simp_all
  show q1: "frame_queues s1 sid = Some \<lparr>maxsize = 2, items = [b1]\<rparr>"
    using iter_pushes [OF i1 lock q0 _ _ enc1] by (simp add: Queue_def)
  show q2: "frame_queues s2 sid = Some \<lparr>maxsize = 2, items = [b1, b2]\<rparr>"
    using iter_pushes [OF i2 l1 q1 _ _ enc2(1)] enc2(2) j1 by simp
  show "frame_queues s3 sid = Some \<lparr>maxsize = 2, items = [b2, b3]\<rparr>"
    using iter_pushes [OF i3 l2 q2 _ _ enc3(1)] enc3(2) j2 by simp
qed


text \<open>
  Claim C2. \<^verbatim>\<open>add_stream\<close> gives a new stream an empty queue of capacity 2. A worker
  iteration that read a frame uses \<^verbatim>\<open>get_nowait\<close> and \<^verbatim>\<open>put_nowait\<close> only, which return
  or raise at once; it leaves a queue of capacity 2 with at most 2 buffers, and when the
  frame encodes to \<open>b\<close> the queue is the old one, without its oldest buffer if it held
  two, with \<open>b\<close> appended. Three iterations that read frames encoding to \<open>b1\<close>, \<open>b2\<close>,
  \<open>b3\<close>, starting from the empty queue, leave \<open>b2\<close>, \<open>b3\<close>: the next two pops yield
  \<open>b2\<close> and then \<open>b3\<close>, the third finds the queue empty, and \<open>b1\<close> is gone.
\<close>

theorem distribution_queue_drop_oldest:
  "(stream_id \<notin> dom (streams self) \<and> isOpened (VideoCapture env url) \<longrightarrow>
      frame_queues (snd (add_stream env now self stream_id url)) stream_id
        = Some \<lparr>maxsize = 2, items = []\<rparr>)
   \<and> (process_stream_iter env now st self stream_id w = (FrameRead fr e, st1, self1, w1)
        \<and> stream_id \<in> dom (frame_locks self)
        \<and> frame_queues self stream_id = Some q \<and> maxsize q = 2 \<and> length (items q) \<le> 2 \<longrightarrow>
        (\<exists>q'. frame_queues self1 stream_id = Some q' \<and> maxsize q' = 2
           \<and> length (items q') \<le> 2)
        \<and> (resize_for_queue env fr = Inr fr' \<and> imencode env fr' (jpeg_quality self) = Inr b \<longrightarrow>
             frame_queues self1 stream_id
               = Some (q\<lparr>items := (if length (items q) = 2 then tl (items q) else items q)
                                   @ [b]\<rparr>)))
   \<and> (process_stream_iter env t1 st0 s0 stream_id w0 = (FrameRead f1 e1, sta, sa, wa)
        \<and> process_stream_iter env t2 sta sa stream_id wa = (FrameRead f2 e2, stb, sb, wb)
        \<and> process_stream_iter env t3 stb sb stream_id wb = (FrameRead f3 e3, stc, sc, wc)
        \<and> stream_id \<in> dom (frame_locks s0)
        \<and> frame_queues s0 stream_id = Some \<lparr>maxsize = 2, items = []\<rparr>
        \<and> resize_for_queue env f1 = Inr g1 \<and> imencode env g1 (jpeg_quality s0) = Inr b1
        \<and> resize_for_queue env f2 = Inr g2 \<and> imencode env g2 (jpeg_quality s0) = Inr b2
        \<and> resize_for_queue env f3 = Inr g3 \<and> imencode env g3 (jpeg_quality s0) = Inr b3 \<longrightarrow>
        frame_queues sc stream_id = Some \<lparr>maxsize = 2, items = [b2, b3]\<rparr>
        \<and> get_timeout \<lparr>maxsize = 2, items = [b2, b3]\<rparr>
            = Inr (b2, \<lparr>maxsize = 2, items = [b3]\<rparr>)
        \<and> get_timeout \<lparr>maxsize = 2, items = [b3]\<rparr> = Inr (b3, \<lparr>maxsize = 2, items = []\<rparr>)
        \<and> get_timeout \<lparr>maxsize = 2, items = []\<rparr> = Inl QueueEmpty)"
proof (intro conjI impI)
  assume "stream_id \<notin> dom (streams self) \<and> isOpened (VideoCapture env url)"
  then show "frame_queues (snd (add_stream env now self stream_id url)) stream_id
        = Some \<lparr>maxsize = 2, items = []\<rparr>"
    by (simp add: add_stream_def Let_def Queue_def)
next
  assume a: "process_stream_iter env now st self stream_id w = (FrameRead fr e, st1, self1, w1)
        \<and> stream_id \<in> dom (frame_locks self)
        \<and> frame_queues self stream_id = Some q \<and> maxsize q = 2 \<and> length (items q) \<le> 2"
  then show "\<exists>q'. frame_queues self1 stream_id = Some q' \<and> maxsize q' = 2
           \<and> length (items q') \<le> 2"
    using iter_bounded [of env now st self stream_id w fr e st1 self1 w1 q] by blast
  assume "resize_for_queue env fr = Inr fr' \<and> imencode env fr' (jpeg_quality self) = Inr b"
  with a show "frame_queues self1 stream_id
               = Some (q\<lparr>items := (if length (items q) = 2 then tl (items q) else items q)
                                   @ [b]\<rparr>)"
    using iter_pushes [of env now st self stream_id w fr e st1 self1 w1 q fr' b] by blast
next
  assume "process_stream_iter env t1 st0 s0 stream_id w0 = (FrameRead f1 e1, sta, sa, wa)
        \<and> process_stream_iter env t2 sta sa stream_id wa = (FrameRead f2 e2, stb, sb, wb)
        \<and> process_stream_iter env t3 stb sb stream_id wb = (FrameRead f3 e3, stc, sc, wc)
        \<and> stream_id \<in> dom (frame_locks s0)
        \<and> frame_queues s0 stream_id = Some \<lparr>maxsize = 2, items = []\<rparr>
        \<and> resize_for_queue env f1 = Inr g1 \<and> imencode env g1 (jpeg_quality s0) = Inr b1
        \<and> resize_for_queue env f2 = Inr g2 \<and> imencode env g2 (jpeg_quality s0) = Inr b2
        \<and> resize_for_queue env f3 = Inr g3 \<and> imencode env g3 (jpeg_quality s0) = Inr b3"
  then show "frame_queues sc stream_id = Some \<lparr>maxsize = 2, items = [b2, b3]\<rparr>"
    using three_frames(3) [of env t1 st0 s0 stream_id w0 f1 e1 sta sa wa t2 f2 e2 stb sb wb
        t3 f3 e3 stc sc wc g1 b1 g2 b2 g3 b3]
    by (simp add: Queue_def)
next
  show "get_timeout \<lparr>maxsize = 2, items = [b2, b3]\<rparr> = Inr (b2, \<lparr>maxsize = 2, items = [b3]\<rparr>)"
    by (simp add: get_timeout_def get_nowait_def)
next
  show "get_timeout \<lparr>maxsize = 2, items = [b3]\<rparr> = Inr (b3, \<lparr>maxsize = 2, items = []\<rparr>)"
    by (simp add: get_timeout_def get_nowait_def)
next
  show "get_timeout \<lparr>maxsize = 2, items = []\<rparr> = Inl QueueEmpty"
    by (simp add: get_timeout_def get_nowait_def)
qed

lemma after_runs:
  "process_stream_iter demo_env 1 [] one_stream ''cam1'' (worker_init 0)
     = (FrameRead landscape None, fst (snd after_one), fst (snd (snd after_one)),
        snd (snd (snd after_one)))"
  "process_stream_iter demo_env 2 (fst (snd after_one)) (fst (snd (snd after_one))) ''cam1''
       (snd (snd (snd after_one)))
     = (FrameRead portrait None, fst (snd after_two), fst (snd (snd after_two)),
        snd (snd (snd after_two)))"
  "process_stream_iter demo_env 3 (fst (snd after_two)) (fst (snd (snd after_two))) ''cam1''
       (snd (snd (snd after_two)))
     = (FrameRead small None, fst (snd after_three), fst (snd (snd after_three)),
        snd (snd (snd after_three)))"
  using after_one_simps(1) after_two_simps(1) after_three_simps(1)
  unfolding after_one_def [symmetric] after_two_def [symmetric] after_three_def [symmetric]
  by (metis prod.collapse)+

theorem distribution_queue_drop_oldest_witness:
  "frame_queues one_stream ''cam1'' = Some \<lparr>maxsize = 2, items = []\<rparr>
   \<and> frame_queues (fst (snd (snd after_one))) ''cam1''
       = Some \<lparr>maxsize = 2, items = [[720, 1280, 40]]\<rparr>
   \<and> frame_queues (fst (snd (snd after_three))) ''cam1''
       = Some \<lparr>maxsize = 2, items = [[1600, 720, 40], [480, 640, 40]]\<rparr>
   \<and> get_timeout \<lparr>maxsize = 2, items = [[1600, 720, 40], [480, 640, 40]]\<rparr>
       = Inr ([1600, 720, 40], \<lparr>maxsize = 2, items = [[480, 640, 40]]\<rparr>)
   \<and> get_timeout \<lparr>maxsize = 2, items = [[480, 640, 40]]\<rparr>
       = Inr ([480, 640, 40], \<lparr>maxsize = 2, items = []\<rparr>)"
proof -
  have q0: "frame_queues one_stream ''cam1'' = Some \<lparr>maxsize = 2, items = []\<rparr>"
    using distribution_queue_drop_oldest [of "''cam1''" optimized_init demo_env
        "''rtsp://cam/live''" 0]
    by (simp add: one_stream_def optimized_init_def demo_env_def camera_def isOpened_def)
  have lock: "''cam1'' \<in> dom (frame_locks one_stream)"
    by (simp add: one_stream_simps)
  have enc1: "imencode demo_env \<lparr>rows = 720, cols = 1280, pixels = [7, 7, 7]\<rparr>
      (jpeg_quality one_stream) = Inr [720, 1280, 40]"
    by (simp add: demo_imencode one_stream_simps)
  have enc2: "imencode demo_env portrait (jpeg_quality one_stream) = Inr [1600, 720, 40]"
    by (simp add: demo_imencode one_stream_simps portrait_def)
  have enc3: "imencode demo_env small (jpeg_quality one_stream) = Inr [480, 640, 40]"
    by (simp add: demo_imencode one_stream_simps small_def)
  have a: "frame_queues (fst (snd (snd after_one))) ''cam1''
       = Some \<lparr>maxsize = 2, items = [[720, 1280, 40]]\<rparr>"
    using distribution_queue_drop_oldest [where stream_id = "''cam1''" and self = one_stream
        and env = demo_env and now = 1 and st = "[]" and w = "worker_init 0"
        and fr = landscape and e = None and ?st1.0 = "fst (snd after_one)"
        and ?self1.0 = "fst (snd (snd after_one))" and ?w1.0 = "snd (snd (snd after_one))"
        and q = "\<lparr>maxsize = 2, items = []\<rparr>"
        and fr' = "\<lparr>rows = 720, cols = 1280, pixels = [7, 7, 7]\<rparr>"
        and b = "[720, 1280, 40]"]
      after_runs(1) lock q0 resize_landscape enc1
    by simp
  have b: "frame_queues (fst (snd (snd after_three))) ''cam1''
       = Some \<lparr>maxsize = 2, items = [[1600, 720, 40], [480, 640, 40]]\<rparr>
     \<and> get_timeout \<lparr>maxsize = 2, items = [[1600, 720, 40], [480, 640, 40]]\<rparr>
       = Inr ([1600, 720, 40], \<lparr>maxsize = 2, items = [[480, 640, 40]]\<rparr>)
     \<and> get_timeout \<lparr>maxsize = 2, items = [[480, 640, 40]]\<rparr>
       = Inr ([480, 640, 40], \<lparr>maxsize = 2, items = []\<rparr>)"
    using distribution_queue_drop_oldest [where stream_id = "''cam1''" and env = demo_env
        and ?t1.0 = 1 and ?st0.0 = "[]" and ?s0.0 = one_stream and ?w0.0 = "worker_init 0"
        and ?f1.0 = landscape and ?e1.0 = None and sta = "fst (snd after_one)"
        and sa = "fst (snd (snd after_one))" and wa = "snd (snd (snd after_one))"
        and ?t2.0 = 2 and ?f2.0 = portrait and ?e2.0 = None and stb = "fst (snd after_two)"
        and sb = "fst (snd (snd after_two))" and wb = "snd (snd (snd after_two))"
        and ?t3.0 = 3 and ?f3.0 = small and ?e3.0 = None and stc = "fst (snd after_three)"
        and sc = "fst (snd (snd after_three))" and wc = "snd (snd (snd after_three))"
        and ?g1.0 = "\<lparr>rows = 720, cols = 1280, pixels = [7, 7, 7]\<rparr>"
        and ?b1.0 = "[720, 1280, 40]" and ?g2.0 = portrait and ?b2.0 = "[1600, 720, 40]"
        and ?g3.0 = small and ?b3.0 = "[480, 640, 40]"]
      after_runs lock q0 resize_landscape resize_portrait resize_small enc1 enc2 enc3
    by simp
  from q0 a b show ?thesis by blast
qed

subsection \<open>Adding a stream\<close>

lemma one_stream_e_simps:
  "streams_e one_stream_e = [''cam1'' \<mapsto> camera]"
  "stream_urls_e one_stream_e = [''cam1'' \<mapsto> ''rtsp://cam/live'']"
  "frame_locks_e one_stream_e = [''cam1'' \<mapsto> Lock]"
  by (simp_all add: one_stream_e_def add_stream_e_def enhanced_init_def demo_env_def
      camera_def isOpened_def Let_def)






subsection \<open>Removing a stream\<close>

text \<open>
  Both \<^verbatim>\<open>remove_stream\<close> methods return true whatever the id, so the 404 branch of
  their endpoints is taken only after an exception. For a registered id the capture is
  released and the per-stream entries are deleted.
\<close>

lemma remove_stream_always_true:
  "fst (remove_stream self stream_id) = True"
  "fst (remove_stream_e self_e stream_id) = True"
  by (simp_all add: remove_stream_def remove_stream_e_def)

lemma remove_stream_clears:
  "streams self stream_id = Some cap \<Longrightarrow>
     (case remove_stream self stream_id of
        (ok, self', eff) \<Rightarrow>
          ok \<and> released eff = Some (release cap) \<and> \<not> isOpened (release cap)
          \<and> streams self' stream_id = None \<and> latest_frames self' stream_id = None
          \<and> frame_locks self' stream_id = None \<and> processing_threads self' stream_id = None
          \<and> stream_urls self' stream_id = None \<and> frame_queues self' stream_id = None
          \<and> active_connections self' stream_id = None)"
  by (simp add: remove_stream_def release_def isOpened_def)

text \<open>
  Claim C4 at an id that was never added: on the processors as constructed,
  \<^verbatim>\<open>remove_stream("ghost")\<close> returns true and the endpoints answer "Stream removed
  successfully", where the claim asks for false and a 404.
\<close>

theorem remove_stream_absent_id:
  "remove_stream optimized_init ''ghost''
     = (True, optimized_init, \<lparr>released = None, close_tasks = {}\<rparr>)
   \<and> remove_stream_endpoint optimized_init ''ghost''
       = (Ok \<lparr>success = True, message = ''Stream removed successfully''\<rparr>,
          optimized_init, \<lparr>released = None, close_tasks = {}\<rparr>)
   \<and> remove_stream_e enhanced_init ''ghost'' = (True, enhanced_init, None)
   \<and> remove_stream_endpoint_e enhanced_init ''ghost''
       = (Ok \<lparr>success = True, message = ''Stream removed successfully''\<rparr>,
          enhanced_init, None)"
  by (simp add: remove_stream_def remove_stream_endpoint_def remove_stream_e_def
      remove_stream_endpoint_e_def optimized_init_def enhanced_init_def)

subsection \<open>Reconnecting\<close>

text \<open>
  Claim C5 as stated fails for \<^verbatim>\<open>simple_service.py\<close>: a camera that opens and delivers no
  frame makes \<^verbatim>\<open>_reconnect_stream\<close> report success and install the new capture, although
  a trial read on it fails.
\<close>

theorem reconnect_counterexample:
  "isOpened (VideoCapture idle_env ''rtsp://cam/live'')
   \<and> fst (read_cap (VideoCapture idle_env ''rtsp://cam/live'')) = (False, None)
   \<and> stream_urls one_stream ''cam1'' = Some ''rtsp://cam/live''
   \<and> fst (reconnect_stream idle_env one_stream ''cam1'') = True
   \<and> streams (snd (reconnect_stream idle_env one_stream ''cam1'')) ''cam1'' = Some silent_camera"
  by (simp add: reconnect_stream_def one_stream_simps idle_env_def silent_camera_def
      isOpened_def read_cap_def Let_def)

text \<open>
  Claim C5, amended. \<^verbatim>\<open>_reconnect_stream\<close> of \<^verbatim>\<open>enhanced_main.py\<close> reports success
  exactly when the URL is stored, the new capture is open and the trial read on it
  returned a frame. \<^verbatim>\<open>_reconnect_stream\<close> of \<^verbatim>\<open>simple_service.py\<close> makes no trial read
  and reports success exactly when the URL is stored and the new capture is open. A failed
  attempt installs no new capture: in \<^verbatim>\<open>enhanced_main.py\<close> the stream keeps its old
  capture, released; in \<^verbatim>\<open>simple_service.py\<close> the stream's capture entry is deleted (or,
  without a stored URL, left as it was).
\<close>

theorem reconnect_outcomes:
  "(fst (reconnect_stream_e env self_e stream_id) \<longleftrightarrow>
      (\<exists>url. stream_urls_e self_e stream_id = Some url
         \<and> isOpened (VideoCapture env url)
         \<and> fst (fst (read_cap (VideoCapture env url)))
         \<and> snd (fst (read_cap (VideoCapture env url))) \<noteq> None))
   \<and> (\<not> fst (reconnect_stream_e env self_e stream_id) \<longrightarrow>
        streams_e (snd (reconnect_stream_e env self_e stream_id)) stream_id
          = (if stream_urls_e self_e stream_id = None then streams_e self_e stream_id
             else map_option release (streams_e self_e stream_id)))
   \<and> (fst (reconnect_stream env self stream_id) \<longleftrightarrow>
        (\<exists>url. stream_urls self stream_id = Some url \<and> isOpened (VideoCapture env url)))
   \<and> (\<not> fst (reconnect_stream env self stream_id) \<longrightarrow>
        streams (snd (reconnect_stream env self stream_id)) stream_id
          = (if stream_urls self stream_id = None then streams self stream_id else None))"
proof (intro conjI impI)
  show "fst (reconnect_stream_e env self_e stream_id) \<longleftrightarrow>
      (\<exists>url. stream_urls_e self_e stream_id = Some url
         \<and> isOpened (VideoCapture env url)
         \<and> fst (fst (read_cap (VideoCapture env url)))
         \<and> snd (fst (read_cap (VideoCapture env url))) \<noteq> None)"
    by (auto simp: reconnect_stream_e_def Let_def split: option.splits prod.splits)
next
  assume "\<not> fst (reconnect_stream_e env self_e stream_id)"
  then show "streams_e (snd (reconnect_stream_e env self_e stream_id)) stream_id
          = (if stream_urls_e self_e stream_id = None then streams_e self_e stream_id
             else map_option release (streams_e self_e stream_id))"
    by (auto simp: reconnect_stream_e_def Let_def split: option.splits prod.splits if_splits)
next
  show "fst (reconnect_stream env self stream_id) \<longleftrightarrow>
        (\<exists>url. stream_urls self stream_id = Some url \<and> isOpened (VideoCapture env url))"
    by (auto simp: reconnect_stream_def Let_def split: option.splits)
next
  assume "\<not> fst (reconnect_stream env self stream_id)"
  then show "streams (snd (reconnect_stream env self stream_id)) stream_id
          = (if stream_urls self stream_id = None then streams self stream_id else None)"
    by (auto simp: reconnect_stream_def Let_def split: option.splits if_splits)
qed

theorem reconnect_outcomes_witness:
  "fst (reconnect_stream_e demo_env one_stream_e ''cam1'')
   \<and> \<not> fst (reconnect_stream_e idle_env one_stream_e ''cam1'')
   \<and> streams_e (snd (reconnect_stream_e idle_env one_stream_e ''cam1'')) ''cam1''
       = Some (release camera)
   \<and> fst (reconnect_stream idle_env one_stream ''cam1'')
   \<and> \<not> fst (reconnect_stream (demo_env\<lparr>VideoCapture := (\<lambda>url. dead_camera)\<rparr>) one_stream ''cam1'')
   \<and> streams (snd (reconnect_stream (demo_env\<lparr>VideoCapture := (\<lambda>url. dead_camera)\<rparr>)
         one_stream ''cam1'')) ''cam1'' = None"
proof -
  let ?dead = "demo_env\<lparr>VideoCapture := (\<lambda>url. dead_camera)\<rparr>"
  have a: "fst (reconnect_stream_e demo_env one_stream_e ''cam1'')"
    using reconnect_outcomes [of demo_env one_stream_e "''cam1''"]
    by (simp add: one_stream_e_simps demo_env_def camera_def isOpened_def read_cap_def)
  have b: "\<not> fst (reconnect_stream_e idle_env one_stream_e ''cam1'')"
    using reconnect_outcomes [of idle_env one_stream_e "''cam1''"]
    by (simp add: one_stream_e_simps idle_env_def silent_camera_def isOpened_def read_cap_def)
  have c: "streams_e (snd (reconnect_stream_e idle_env one_stream_e ''cam1'')) ''cam1''
       = Some (release camera)"
    using reconnect_outcomes [of idle_env one_stream_e "''cam1''"] b
    by (simp add: one_stream_e_simps)
  have d: "fst (reconnect_stream idle_env one_stream ''cam1'')"
    using reconnect_outcomes [of idle_env _ "''cam1''" one_stream]
    by (simp add: one_stream_simps idle_env_def silent_camera_def isOpened_def)
  have e: "\<not> fst (reconnect_stream ?dead one_stream ''cam1'')"
    using reconnect_outcomes [of ?dead _ "''cam1''" one_stream]
    by (simp add: one_stream_simps dead_camera_def isOpened_def)
  have f: "streams (snd (reconnect_stream ?dead one_stream ''cam1'')) ''cam1'' = None"
    using reconnect_outcomes [of ?dead _ "''cam1''" one_stream] e
    by (simp add: one_stream_simps)
  from a b c d e f show ?thesis by blast
qed

subsection \<open>The snapshot endpoint\<close>

lemma cached_stream_simps:
  "frame_locks cached_stream = [''cam1'' \<mapsto> Lock]"
  "latest_frames cached_stream = [''cam1'' \<mapsto> 0]"
  "jpeg_quality cached_stream = 40"
  by (simp_all add: cached_stream_def one_stream_simps)

text \<open>
  Claim C6. \<^verbatim>\<open>GET /stream/{id}/frame\<close> raises the 404 "Stream not found or no frame
  available" when the id has no lock and when no frame has been cached for it, and
  allocates nothing then; an id has no lock on the processor as constructed, and after
  \<^verbatim>\<open>remove_stream\<close> for it. Otherwise the response is a
  \<^verbatim>\<open>StreamingResponse\<close> of type \<^verbatim>\<open>image/jpeg\<close> whose body is the JPEG encoding of the
  cached frame, at the requested quality, or at the processor's \<^verbatim>\<open>jpeg_quality\<close> when
  the request gives none.
\<close>

theorem snapshot_endpoint:
  "(stream_id \<notin> dom (frame_locks self) \<or> latest_frames self stream_id = None \<longrightarrow>
      get_stream_frame env st self stream_id quality
        = (HTTPException 404 ''Stream not found or no frame available'', st))
   \<and> (stream_id \<in> dom (frame_locks self) \<and> latest_frames self stream_id = Some a
        \<and> imencode env (st ! a) (case quality of Some q \<Rightarrow> q | None \<Rightarrow> jpeg_quality self)
            = Inr buffer \<longrightarrow>
        fst (get_stream_frame env st self stream_id quality)
          = Ok \<lparr>body = buffer, media_type = ''image/jpeg'',
                headers = [(''Cache-Control'', ''no-cache'')]\<rparr>)
   \<and> get_stream_frame env st optimized_init stream_id quality
       = (HTTPException 404 ''Stream not found or no frame available'', st)
   \<and> get_stream_frame env st (fst (snd (remove_stream self stream_id))) stream_id quality
       = (HTTPException 404 ''Stream not found or no frame available'', st)"
proof (intro conjI impI)
  show "get_stream_frame env st optimized_init stream_id quality
       = (HTTPException 404 ''Stream not found or no frame available'', st)"
    by (simp add: get_stream_frame_def get_latest_frame_none optimized_init_def)
next
  show "get_stream_frame env st (fst (snd (remove_stream self stream_id))) stream_id quality
       = (HTTPException 404 ''Stream not found or no frame available'', st)"
    by (simp add: get_stream_frame_def get_latest_frame_none remove_stream_def)
next
  assume "stream_id \<notin> dom (frame_locks self) \<or> latest_frames self stream_id = None"
  then show "get_stream_frame env st self stream_id quality
        = (HTTPException 404 ''Stream not found or no frame available'', st)"
    by (simp add: get_stream_frame_def get_latest_frame_none)
next
  assume a: "stream_id \<in> dom (frame_locks self) \<and> latest_frames self stream_id = Some a
        \<and> imencode env (st ! a) (case quality of Some q \<Rightarrow> q | None \<Rightarrow> jpeg_quality self)
            = Inr buffer"
  then have "get_latest_frame st self stream_id = (Some (length st), st @ [st ! a])"
    by (simp add: get_latest_frame_copy)
  with a show "fst (get_stream_frame env st self stream_id quality)
          = Ok \<lparr>body = buffer, media_type = ''image/jpeg'',
                headers = [(''Cache-Control'', ''no-cache'')]\<rparr>"
    by (simp add: get_stream_frame_def Let_def)
qed

theorem snapshot_endpoint_witness:
  "get_stream_frame demo_env [] one_stream ''cam1'' None
     = (HTTPException 404 ''Stream not found or no frame available'', [])
   \<and> get_stream_frame demo_env [landscape] cached_stream ''ghost'' (Some 90)
       = (HTTPException 404 ''Stream not found or no frame available'', [landscape])
   \<and> fst (get_stream_frame demo_env [landscape] cached_stream ''cam1'' None)
       = Ok \<lparr>body = [1080, 1920, 40], media_type = ''image/jpeg'',
             headers = [(''Cache-Control'', ''no-cache'')]\<rparr>
   \<and> fst (get_stream_frame demo_env [landscape] cached_stream ''cam1'' (Some 90))
       = Ok \<lparr>body = [1080, 1920, 90], media_type = ''image/jpeg'',
             headers = [(''Cache-Control'', ''no-cache'')]\<rparr>"
proof -
  have a: "get_stream_frame demo_env [] one_stream ''cam1'' None
     = (HTTPException 404 ''Stream not found or no frame available'', [])"
    using snapshot_endpoint [of "''cam1''" one_stream demo_env "[]" None]
    by (simp add: one_stream_simps)
  have b: "get_stream_frame demo_env [landscape] cached_stream ''ghost'' (Some 90)
       = (HTTPException 404 ''Stream not found or no frame available'', [landscape])"
    using snapshot_endpoint [of "''ghost''" cached_stream demo_env "[landscape]" "Some 90"]
    by (simp add: cached_stream_simps)
  have c: "fst (get_stream_frame demo_env [landscape] cached_stream ''cam1'' None)
       = Ok \<lparr>body = [1080, 1920, 40], media_type = ''image/jpeg'',
             headers = [(''Cache-Control'', ''no-cache'')]\<rparr>"
    using snapshot_endpoint [of "''cam1''" cached_stream demo_env "[landscape]" None 0
        "[1080, 1920, 40]"]
    by (simp add: cached_stream_simps demo_imencode landscape_def)
  have d: "fst (get_stream_frame demo_env [landscape] cached_stream ''cam1'' (Some 90))
       = Ok \<lparr>body = [1080, 1920, 90], media_type = ''image/jpeg'',
             headers = [(''Cache-Control'', ''no-cache'')]\<rparr>"
    using snapshot_endpoint [of "''cam1''" cached_stream demo_env "[landscape]" "Some 90" 0
        "[1080, 1920, 90]"]
    by (simp add: cached_stream_simps demo_imencode landscape_def)
  from a b c d show ?thesis by blast
qed


subsection \<open>The push-socket handler\<close>











text \<open>
  While the stream is registered, an iteration of the delivery loop always continues:
  the loop ends only after \<^verbatim>\<open>remove_stream\<close>, or after the worker's
  \<^verbatim>\<open>_reconnect_stream\<close> has deleted the capture entry.
\<close>

lemma websocket_iter_continues:
  "stream_id \<in> dom (streams self) \<Longrightarrow>
     fst (websocket_iter self stream_id ws) = Continue
     \<and> streams (fst (snd (websocket_iter self stream_id ws))) = streams self"
  by (auto simp: websocket_iter_def Let_def split: option.splits sum.splits prod.splits)

lemma apply_event_streams:
  "e \<noteq> RemoveStream \<Longrightarrow> e \<noteq> WorkerReconnect \<Longrightarrow>
     streams (fst (apply_event env e self stream_id ws)) = streams self"
  by (cases e) (simp_all add: apply_event_def enqueue_frame_keeps)

lemma ws_loop_needs_removal:
  "RemoveStream \<notin> set evs \<Longrightarrow> WorkerReconnect \<notin> set evs \<Longrightarrow>
     stream_id \<in> dom (streams self) \<Longrightarrow>
     ws_loop env evs self stream_id ws = None"
proof (induction evs arbitrary: self ws)
  case Nil
  then show ?case by simp
next
  case (Cons e es)
  obtain self1 ws1 where ev: "apply_event env e self stream_id ws = (self1, ws1)"
    by (cases "apply_event env e self stream_id ws")
  from Cons.prems have "e \<noteq> RemoveStream" and "e \<noteq> WorkerReconnect" by auto
  from apply_event_streams [OF this, of env self stream_id ws] ev Cons.prems
  have in1: "stream_id \<in> dom (streams self1)" by simp
  obtain r self2 ws2 where it: "websocket_iter self1 stream_id ws1 = (r, self2, ws2)"
    by (cases "websocket_iter self1 stream_id ws1")
  from websocket_iter_continues [OF in1, of ws1] it
  have "r = Continue" and "stream_id \<in> dom (streams self2)" using in1 by simp_all
  with Cons.IH [of self2 ws2] Cons.prems ev it show ?case by simp
qed

lemma websocket_stream_needs_removal:
  assumes "RemoveStream \<notin> set evs" and "WorkerReconnect \<notin> set evs"
      and "stream_id \<in> dom (streams self)"
      and "\<not> client_gone ws" and "\<not> server_closed ws"
  shows "websocket_stream env now evs self stream_id ws = None"
proof -
  have "stream_id \<in> dom (streams (register_websocket self stream_id (ws_accept ws)))"
    using assms(3) by (simp add: register_websocket_def Let_def)
  from ws_loop_needs_removal [OF assms(1) assms(2) this] assms show ?thesis
    by (simp add: websocket_stream_def Let_def ws_send_def ws_accept_def)
qed

text \<open>
  Claim C7 at a consumer that has gone away, for a registered stream with two buffers
  queued: \<^verbatim>\<open>send_bytes\<close> raises, the inner \<^verbatim>\<open>except Exception\<close> catches it, and the
  iteration continues, having taken a buffer from the queue and delivered nothing. A
  handler whose client disconnects before the first iteration is still in its loop three
  iterations later. The claim says that the loop terminates when the consumer
  disconnects.
\<close>

theorem disconnected_consumer_keeps_looping:
  "ws_send gone_client (Bytes [1]) = Inl WebSocketDisconnect
   \<and> fst (websocket_iter full_stream ''cam1'' gone_client) = Continue
   \<and> frame_queues (fst (snd (websocket_iter full_stream ''cam1'' gone_client))) ''cam1''
       = Some \<lparr>maxsize = 2, items = [[2]]\<rparr>
   \<and> outbox (snd (snd (websocket_iter full_stream ''cam1'' gone_client))) = []
   \<and> websocket_stream demo_env 0 [ClientDisconnects, Idle, Idle, Idle] full_stream ''cam1'' client
       = None"
proof -
  have in_streams: "''cam1'' \<in> dom (streams full_stream)"
    by (simp add: full_stream_def one_stream_simps)
  have a: "ws_send gone_client (Bytes [1]) = Inl WebSocketDisconnect"
    by (simp add: ws_send_def gone_client_def)
  have b: "websocket_iter full_stream ''cam1'' gone_client
      = (Continue,
         full_stream\<lparr>frame_queues := (frame_queues full_stream)
            (''cam1'' \<mapsto> \<lparr>maxsize = 2, items = [[2]]\<rparr>)\<rparr>,
         gone_client)"
    using in_streams a
    by (simp add: websocket_iter_def full_stream_simps get_timeout_def get_nowait_def Let_def)
  have c: "websocket_stream demo_env 0 [ClientDisconnects, Idle, Idle, Idle] full_stream ''cam1''
      client = None"
    using in_streams
    by (intro websocket_stream_needs_removal) (simp_all add: client_def)
  from a b c show ?thesis by (simp add: gone_client_def)
qed

end
